theory Spec2Isabelle
  imports Main "HOL-Library.Sublist"
begin

section \<open>Go values\<close>

text \<open>
  A Go \<open>string\<close> is a sequence of bytes, here a \<open>string\<close> (a list of 8-bit characters).
  A Go \<open>int\<close> identifier is an \<open>int\<close>: the program never does arithmetic on identifiers,
  it only copies and prints them.  A value of the interface type \<open>error\<close> is \<open>None\<close> for
  \<open>nil\<close> and \<open>Some msg\<close> for an error whose \<open>Error()\<close> text is \<open>msg\<close>.  A pointer is an
  \<open>option\<close>: \<open>None\<close> is \<open>nil\<close>.  Reading a field through a \<open>nil\<close> pointer panics.
\<close>

type_synonym error = "string option"

datatype panic = NilPointerDereference

subsection \<open>The fragment of package \<open>strings\<close> and \<open>fmt\<close> that the program calls\<close>

text \<open>
  \<open>strings.TrimSpace\<close> and \<open>strings.ToLower\<close> work on bytes as long as the string is
  ASCII; on a string with a byte of \<open>0x80\<close> or more they decode UTF-8 and consult the
  Unicode tables of the standard library.  Those tables are not part of the repository, so
  what the two functions return on a non-ASCII string is a parameter of the model.
\<close>

record unicode =
  TrimSpaceNonASCII :: "string \<Rightarrow> string"
  ToLowerNonASCII :: "string \<Rightarrow> string"

definition isASCII :: "string \<Rightarrow> bool" where
  "isASCII s = list_all (\<lambda>c. (of_char c :: nat) < 128) s"

definition asciiSpace :: "char \<Rightarrow> bool" where
  "asciiSpace c = (c \<in> set [CHR 0x09, CHR 0x0A, CHR 0x0B, CHR 0x0C, CHR 0x0D, CHR 0x20])"

definition TrimSpace :: "unicode \<Rightarrow> string \<Rightarrow> string" where
  "TrimSpace U s =
     (if isASCII s then rev (dropWhile asciiSpace (rev (dropWhile asciiSpace s)))
      else TrimSpaceNonASCII U s)"

definition lowerByte :: "char \<Rightarrow> char" where
  "lowerByte c =
     (if 65 \<le> (of_char c :: nat) \<and> (of_char c :: nat) \<le> 90
      then char_of (of_char c + (32 :: nat)) else c)"

definition ToLower :: "unicode \<Rightarrow> string \<Rightarrow> string" where
  "ToLower U s = (if isASCII s then map lowerByte s else ToLowerNonASCII U s)"

definition HasPrefix :: "string \<Rightarrow> string \<Rightarrow> bool" where
  "HasPrefix s pre = (length s \<ge> length pre \<and> take (length pre) s = pre)"

text \<open>\<open>%d\<close> of \<open>fmt.Sprintf\<close>: the decimal digits, with a leading minus sign.\<close>

function decimal :: "nat \<Rightarrow> string" where
  "decimal n =
     (if n < 10 then [''0123456789'' ! n]
      else decimal (n div 10) @ [''0123456789'' ! (n mod 10)])"
  by pat_completeness auto
termination
  by (relation "measure id") auto

declare decimal.simps [simp del]

definition itoa :: "int \<Rightarrow> string" where
  "itoa i = (if i < 0 then CHR ''-'' # decimal (nat (- i)) else decimal (nat i))"

section \<open>Package \<open>gitlab\<close>: the types\<close>

record Project =
  ID :: int
  Name :: string
  PathWithNamespace :: string
  WebURL :: string
  Description :: string
  Topics :: "string list"

record Commit =
  ID :: string
  ShortID :: string
  Title :: string

record Diff =
  OldPath :: string
  NewPath :: string
  AMode :: string
  BMode :: string
  NewFile :: bool
  RenamedFile :: bool
  DeletedFile :: bool

record Compare =
  Commit :: Commit
  Commits :: "Commit list"
  Diffs :: "Diff list"

record MergeRequest =
  ID :: int
  IID :: int
  Title :: string
  WebURL :: string
  State :: string
  Draft :: bool
  SourceBranch :: string
  TargetBranch :: string
  ProjectID :: int

definition HasChanges :: "Compare \<Rightarrow> bool" where
  "HasChanges c = (length (Commits c) > 0)"

definition IsDraft :: "unicode \<Rightarrow> MergeRequest \<Rightarrow> bool" where
  "IsDraft U mr =
     (if Draft mr then True
      else (let titleLower = ToLower U (TrimSpace U (MergeRequest.Title mr))
            in HasPrefix titleLower ''draft:'' \<or> HasPrefix titleLower ''wip:''))"

section \<open>Package \<open>bulkmr\<close>: the service\<close>

subsection \<open>The client interface\<close>

text \<open>
  \<open>GitLabClient\<close> is an interface: the service knows nothing about an implementation but
  its five methods.  A method may read and change the world behind the interface (the
  hosting platform), so each one takes the world \<open>'w\<close> and returns the new one together
  with the two values of its Go result, the value and the error, which an implementation
  chooses independently of each other.
\<close>

record 'w GitLabClient =
  GetProject :: "string \<Rightarrow> 'w \<Rightarrow> (Project option \<times> error) \<times> 'w"
  BranchExists :: "int \<Rightarrow> string \<Rightarrow> 'w \<Rightarrow> (bool \<times> error) \<times> 'w"
  CompareBranches :: "int \<Rightarrow> string \<Rightarrow> string \<Rightarrow> 'w \<Rightarrow> (Compare option \<times> error) \<times> 'w"
  FindOpenMergeRequests ::
    "int \<Rightarrow> string \<Rightarrow> string \<Rightarrow> 'w \<Rightarrow> (MergeRequest list \<times> error) \<times> 'w"
  CreateMergeRequest ::
    "int \<Rightarrow> string \<Rightarrow> string \<Rightarrow> string \<Rightarrow> string \<Rightarrow> 'w \<Rightarrow> (MergeRequest option \<times> error) \<times> 'w"

text \<open>
  To speak about which methods the service invokes, the state that the service threads
  through its calls is the world together with the list of the invocations made so far,
  oldest first.  Each \<open>s.client.M(...)\<close> of the source is \<open>client_M\<close> here: it runs the
  method on the world and appends the invocation to the list.
\<close>

datatype call =
    GetProjectCall string
  | BranchExistsCall int string
  | CompareBranchesCall int string string
  | FindOpenMergeRequestsCall int string string
  | CreateMergeRequestCall int string string string string

type_synonym 'w state = "'w \<times> call list"

definition client_GetProject ::
  "'w GitLabClient \<Rightarrow> string \<Rightarrow> 'w state \<Rightarrow> (Project option \<times> error) \<times> 'w state" where
  "client_GetProject c projectPath s =
     (case GetProject c projectPath (fst s) of
        (r, w) \<Rightarrow> (r, (w, snd s @ [GetProjectCall projectPath])))"

definition client_BranchExists ::
  "'w GitLabClient \<Rightarrow> int \<Rightarrow> string \<Rightarrow> 'w state \<Rightarrow> (bool \<times> error) \<times> 'w state" where
  "client_BranchExists c projectID branch s =
     (case BranchExists c projectID branch (fst s) of
        (r, w) \<Rightarrow> (r, (w, snd s @ [BranchExistsCall projectID branch])))"

definition client_CompareBranches ::
  "'w GitLabClient \<Rightarrow> int \<Rightarrow> string \<Rightarrow> string \<Rightarrow> 'w state
     \<Rightarrow> (Compare option \<times> error) \<times> 'w state" where
  "client_CompareBranches c projectID sourceBranch targetBranch s =
     (case CompareBranches c projectID sourceBranch targetBranch (fst s) of
        (r, w) \<Rightarrow> (r, (w, snd s @ [CompareBranchesCall projectID sourceBranch targetBranch])))"

definition client_FindOpenMergeRequests ::
  "'w GitLabClient \<Rightarrow> int \<Rightarrow> string \<Rightarrow> string \<Rightarrow> 'w state
     \<Rightarrow> (MergeRequest list \<times> error) \<times> 'w state" where
  "client_FindOpenMergeRequests c projectID sourceBranch targetBranch s =
     (case FindOpenMergeRequests c projectID sourceBranch targetBranch (fst s) of
        (r, w) \<Rightarrow>
          (r, (w, snd s @ [FindOpenMergeRequestsCall projectID sourceBranch targetBranch])))"

definition client_CreateMergeRequest ::
  "'w GitLabClient \<Rightarrow> int \<Rightarrow> string \<Rightarrow> string \<Rightarrow> string \<Rightarrow> string \<Rightarrow> 'w state
     \<Rightarrow> (MergeRequest option \<times> error) \<times> 'w state" where
  "client_CreateMergeRequest c projectID sourceBranch targetBranch title description s =
     (case CreateMergeRequest c projectID sourceBranch targetBranch title description (fst s) of
        (r, w) \<Rightarrow>
          (r, (w, snd s @
             [CreateMergeRequestCall projectID sourceBranch targetBranch title description])))"

subsection \<open>Configuration, results, summary\<close>

record Config =
  OriginBranch :: string
  TargetBranch :: string
  Projects :: "string list"
  Verbose :: bool

text \<open>
  \<open>ResultStatus\<close> is a Go string type with six named constants; the zero value of a
  \<open>ProjectResult\<close> has the empty string as its status.
\<close>

type_synonym ResultStatus = string

definition StatusCreated :: ResultStatus where
  "StatusCreated = ''CREATED''"

definition StatusSkippedExists :: ResultStatus where
  "StatusSkippedExists = ''SKIPPED_EXISTS''"

definition StatusSkippedDraft :: ResultStatus where
  "StatusSkippedDraft = ''SKIPPED_DRAFT''"

definition StatusSkippedBranch :: ResultStatus where
  "StatusSkippedBranch = ''SKIPPED_NO_BRANCH''"

definition StatusSkippedNoChange :: ResultStatus where
  "StatusSkippedNoChange = ''SKIPPED_NO_CHANGE''"

definition StatusError :: ResultStatus where
  "StatusError = ''ERROR''"

record ProjectResult =
  Project :: string
  Status :: ResultStatus
  MergeRequestID :: int
  MergeRequestIID :: int
  MergeRequestURL :: string
  ErrorMessage :: string
  Details :: string

record Summary =
  Total :: int
  Created :: int
  SkippedExists :: int
  SkippedDraft :: int
  SkippedBranch :: int
  SkippedNoChange :: int
  Errors :: int

subsection \<open>\<open>processProject\<close>\<close>

text \<open>
  The loop over the open merge requests (\<open>for i := range existingMRs\<close>) with its three
  variables: \<open>hasNonDraft\<close>, \<open>result\<close> and the pointer \<open>draftMR\<close>.  The \<open>break\<close> is the
  branch that does not recurse.
\<close>

fun scanExisting ::
  "unicode \<Rightarrow> MergeRequest list \<Rightarrow> bool \<times> ProjectResult \<times> MergeRequest option
     \<Rightarrow> bool \<times> ProjectResult \<times> MergeRequest option" where
  "scanExisting U [] (hasNonDraft, result, draftMR) = (hasNonDraft, result, draftMR)"
| "scanExisting U (mr # rest) (hasNonDraft, result, draftMR) =
     (if \<not> IsDraft U mr
      then (True,
            result\<lparr>Status := StatusSkippedExists,
                   MergeRequestID := MergeRequest.ID mr,
                   MergeRequestIID := IID mr,
                   MergeRequestURL := MergeRequest.WebURL mr,
                   Details := ''Open MR already exists: !'' @ itoa (IID mr)\<rparr>,
            draftMR)
      else scanExisting U rest (hasNonDraft, result, Some mr))"

text \<open>
  The function itself.  Every \<open>return result\<close> of the source is an \<open>Inr\<close> here, and every
  place where the source reads through a pointer that may be \<open>nil\<close> (\<open>project.ID\<close>,
  \<open>compare.HasChanges()\<close>, \<open>mr.ID\<close>) is an \<open>Inl NilPointerDereference\<close>.  The lines that
  \<open>log.Printf\<close> writes when \<open>Verbose\<close> is set go to the standard error stream and are not
  part of the model.
\<close>

definition processProject ::
  "unicode \<Rightarrow> 'w GitLabClient \<Rightarrow> Config \<Rightarrow> string \<Rightarrow> 'w state
     \<Rightarrow> (panic + ProjectResult) \<times> 'w state" where
  "processProject U c cfg projectPath s0 =
    (let result = \<lparr>Project = projectPath, Status = [], MergeRequestID = 0,
                    MergeRequestIID = 0, MergeRequestURL = [], ErrorMessage = [],
                    Details = []\<rparr>
     in
     case client_GetProject c projectPath s0 of ((project, err), s1) \<Rightarrow>
     (case err of
        Some e \<Rightarrow> (Inr (result\<lparr>Status := StatusError, ErrorMessage := e\<rparr>), s1)
      | None \<Rightarrow>
     (case project of
        None \<Rightarrow> (Inl NilPointerDereference, s1)
      | Some project \<Rightarrow>
     (case client_BranchExists c (Project.ID project) (OriginBranch cfg) s1 of
        ((originExists, err), s2) \<Rightarrow>
     (case err of
        Some e \<Rightarrow>
          (Inr (result\<lparr>Status := StatusError,
                        ErrorMessage := ''failed to check origin branch: '' @ e\<rparr>), s2)
      | None \<Rightarrow>
     if \<not> originExists
     then (Inr (result\<lparr>Status := StatusSkippedBranch,
                        Details := ''Origin branch '' @ [CHR 0x27] @ OriginBranch cfg
                                   @ [CHR 0x27] @ '' does not exist''\<rparr>), s2)
     else
     (case client_BranchExists c (Project.ID project) (Config.TargetBranch cfg) s2 of
        ((targetExists, err), s3) \<Rightarrow>
     (case err of
        Some e \<Rightarrow>
          (Inr (result\<lparr>Status := StatusError,
                        ErrorMessage := ''failed to check target branch: '' @ e\<rparr>), s3)
      | None \<Rightarrow>
     if \<not> targetExists
     then (Inr (result\<lparr>Status := StatusSkippedBranch,
                        Details := ''Target branch '' @ [CHR 0x27] @ Config.TargetBranch cfg
                                   @ [CHR 0x27] @ '' does not exist''\<rparr>), s3)
     else
     (case client_FindOpenMergeRequests c (Project.ID project) (OriginBranch cfg)
             (Config.TargetBranch cfg) s3 of
        ((existingMRs, err), s4) \<Rightarrow>
     (case err of
        Some e \<Rightarrow>
          (Inr (result\<lparr>Status := StatusError,
                        ErrorMessage := ''failed to find existing merge requests: '' @ e\<rparr>),
           s4)
      | None \<Rightarrow>
     if length existingMRs > 0
     then
       (case scanExisting U existingMRs (False, result, None) of
          (hasNonDraft, result, draftMR) \<Rightarrow>
            (case draftMR of
               Some d \<Rightarrow>
                 if \<not> hasNonDraft
                 then (Inr (result\<lparr>Status := StatusSkippedDraft,
                                    MergeRequestID := MergeRequest.ID d,
                                    MergeRequestIID := IID d,
                                    MergeRequestURL := MergeRequest.WebURL d,
                                    Details := ''Draft MR exists: !'' @ itoa (IID d) @ '' (''
                                               @ MergeRequest.Title d @ '')''\<rparr>), s4)
                 else (Inr result, s4)
             | None \<Rightarrow> (Inr result, s4)))
     else
     (case client_CompareBranches c (Project.ID project) (OriginBranch cfg)
             (Config.TargetBranch cfg) s4 of
        ((compare, err), s5) \<Rightarrow>
     (case err of
        Some e \<Rightarrow>
          (Inr (result\<lparr>Status := StatusError,
                        ErrorMessage := ''failed to compare branches: '' @ e\<rparr>), s5)
      | None \<Rightarrow>
     (case compare of
        None \<Rightarrow> (Inl NilPointerDereference, s5)
      | Some compare \<Rightarrow>
     if \<not> HasChanges compare
     then (Inr (result\<lparr>Status := StatusSkippedNoChange,
                        Details := ''No changes between '' @ OriginBranch cfg @ '' and ''
                                   @ Config.TargetBranch cfg\<rparr>), s5)
     else
     (let title = ''Merge '' @ OriginBranch cfg @ '' into '' @ Config.TargetBranch cfg;
          description =
            ''This merge request was created automatically by gitlab-tools.''
            @ [CHR 0x0A, CHR 0x0A] @ ''**Source Branch**: '' @ [CHR 0x60] @ OriginBranch cfg
            @ [CHR 0x60, CHR 0x0A] @ ''**Target Branch**: '' @ [CHR 0x60]
            @ Config.TargetBranch cfg @ [CHR 0x60]
      in
      case client_CreateMergeRequest c (Project.ID project) (OriginBranch cfg)
             (Config.TargetBranch cfg) title description s5 of
        ((mr, err), s6) \<Rightarrow>
     (case err of
        Some e \<Rightarrow>
          (Inr (result\<lparr>Status := StatusError,
                        ErrorMessage := ''failed to create merge request: '' @ e\<rparr>), s6)
      | None \<Rightarrow>
     (case mr of
        None \<Rightarrow> (Inl NilPointerDereference, s6)
      | Some mr \<Rightarrow>
          (Inr (result\<lparr>Status := StatusCreated,
                        MergeRequestID := MergeRequest.ID mr,
                        MergeRequestIID := IID mr,
                        MergeRequestURL := MergeRequest.WebURL mr,
                        Details := ''MR !'' @ itoa (IID mr) @ '': ''
                                   @ MergeRequest.WebURL mr\<rparr>), s6))))))))))))))))"

subsection \<open>\<open>ProcessProjects\<close>\<close>

text \<open>The \<open>switch result.Status\<close> of the loop body; it has no default case.\<close>

definition countStatus :: "ProjectResult \<Rightarrow> Summary \<Rightarrow> Summary" where
  "countStatus result summary =
     (if Status result = StatusCreated then summary\<lparr>Created := Created summary + 1\<rparr>
      else if Status result = StatusSkippedExists
        then summary\<lparr>SkippedExists := SkippedExists summary + 1\<rparr>
      else if Status result = StatusSkippedDraft
        then summary\<lparr>SkippedDraft := SkippedDraft summary + 1\<rparr>
      else if Status result = StatusSkippedBranch
        then summary\<lparr>SkippedBranch := SkippedBranch summary + 1\<rparr>
      else if Status result = StatusSkippedNoChange
        then summary\<lparr>SkippedNoChange := SkippedNoChange summary + 1\<rparr>
      else if Status result = StatusError then summary\<lparr>Errors := Errors summary + 1\<rparr>
      else summary)"

text \<open>
  The loop \<open>for _, projectPath := range s.config.Projects\<close> with its two variables
  \<open>results\<close> and \<open>summary\<close>.  A panic inside \<open>processProject\<close> is not recovered: it ends
  the loop and the function.
\<close>

fun processLoop ::
  "unicode \<Rightarrow> 'w GitLabClient \<Rightarrow> Config \<Rightarrow> string list \<Rightarrow> ProjectResult list \<times> Summary
     \<Rightarrow> 'w state \<Rightarrow> (panic + ProjectResult list \<times> Summary) \<times> 'w state" where
  "processLoop U c cfg [] (results, summary) s = (Inr (results, summary), s)"
| "processLoop U c cfg (projectPath # rest) (results, summary) s =
     (case processProject U c cfg projectPath s of
        (Inl p, s') \<Rightarrow> (Inl p, s')
      | (Inr result, s') \<Rightarrow>
          processLoop U c cfg rest (results @ [result], countStatus result summary) s')"

definition ProcessProjects ::
  "unicode \<Rightarrow> 'w GitLabClient \<Rightarrow> Config \<Rightarrow> 'w state
     \<Rightarrow> (panic + ProjectResult list \<times> Summary) \<times> 'w state" where
  "ProcessProjects U c cfg s =
     processLoop U c cfg (Projects cfg)
       ([], \<lparr>Total = int (length (Projects cfg)), Created = 0, SkippedExists = 0,
              SkippedDraft = 0, SkippedBranch = 0, SkippedNoChange = 0, Errors = 0\<rparr>) s"

section \<open>The test double of \<open>service_test.go\<close>\<close>

text \<open>
  \<open>mockGitLabClient\<close> answers from three maps and one error value that the tests fill
  before the run; none of its five methods changes them.  Reading a missing key of a Go
  \<open>map[string]bool\<close> gives \<open>false\<close>.
\<close>

record mockGitLabClient =
  projects :: "string \<rightharpoonup> Project"
  branches :: "int \<rightharpoonup> (string \<rightharpoonup> bool)"
  mergeRequests :: "int \<rightharpoonup> MergeRequest list"
  createError :: error

definition newMockClient :: mockGitLabClient where
  "newMockClient =
     \<lparr>projects = Map.empty, branches = Map.empty, mergeRequests = Map.empty,
      createError = None\<rparr>"

definition mockProject :: "string \<Rightarrow> int \<Rightarrow> Project" where
  "mockProject path ident =
     \<lparr>Project.ID = ident, Name = path, PathWithNamespace = path,
      WebURL = ''https://gitlab.example.com/'' @ path, Description = [], Topics = []\<rparr>"

definition addProject :: "string \<Rightarrow> int \<Rightarrow> mockGitLabClient \<Rightarrow> mockGitLabClient" where
  "addProject path ident m =
     m\<lparr>projects := (projects m)(path \<mapsto> mockProject path ident),
       branches := (branches m)(ident \<mapsto> Map.empty)\<rparr>"

definition addBranch :: "int \<Rightarrow> string \<Rightarrow> mockGitLabClient \<Rightarrow> mockGitLabClient" where
  "addBranch projectID branchName m =
     m\<lparr>branches := (branches m)(projectID \<mapsto>
          (case branches m projectID of
             None \<Rightarrow> Map.empty(branchName \<mapsto> True)
           | Some bs \<Rightarrow> bs(branchName \<mapsto> True)))\<rparr>"

definition addMergeRequest :: "int \<Rightarrow> MergeRequest \<Rightarrow> mockGitLabClient \<Rightarrow> mockGitLabClient" where
  "addMergeRequest projectID mr m =
     m\<lparr>mergeRequests := (mergeRequests m)(projectID \<mapsto>
          (case mergeRequests m projectID of None \<Rightarrow> [mr] | Some mrs \<Rightarrow> mrs @ [mr]))\<rparr>"

definition mock_GetProject :: "mockGitLabClient \<Rightarrow> string \<Rightarrow> Project option \<times> error" where
  "mock_GetProject m projectPath =
     (case projects m projectPath of None \<Rightarrow> (None, None) | Some project \<Rightarrow> (Some project, None))"

definition mock_BranchExists :: "mockGitLabClient \<Rightarrow> int \<Rightarrow> string \<Rightarrow> bool \<times> error" where
  "mock_BranchExists m projectID branch =
     (case branches m projectID of
        None \<Rightarrow> (False, None)
      | Some bs \<Rightarrow> ((case bs branch of None \<Rightarrow> False | Some b \<Rightarrow> b), None))"

definition mock_CompareBranches ::
  "mockGitLabClient \<Rightarrow> int \<Rightarrow> string \<Rightarrow> string \<Rightarrow> Compare option \<times> error" where
  "mock_CompareBranches m projectID sourceBranch targetBranch =
     (Some \<lparr>Commit = \<lparr>Commit.ID = [], ShortID = [], Title = []\<rparr>,
            Commits = [\<lparr>Commit.ID = ''abc123'', ShortID = ''abc123'', Title = ''Test commit''\<rparr>],
            Diffs = []\<rparr>, None)"

definition mock_FindOpenMergeRequests ::
  "mockGitLabClient \<Rightarrow> int \<Rightarrow> string \<Rightarrow> string \<Rightarrow> MergeRequest list \<times> error" where
  "mock_FindOpenMergeRequests m projectID sourceBranch targetBranch =
     (case mergeRequests m projectID of None \<Rightarrow> ([], None) | Some mrs \<Rightarrow> (mrs, None))"

definition mock_CreateMergeRequest ::
  "mockGitLabClient \<Rightarrow> int \<Rightarrow> string \<Rightarrow> string \<Rightarrow> string \<Rightarrow> string
     \<Rightarrow> MergeRequest option \<times> error" where
  "mock_CreateMergeRequest m projectID sourceBranch targetBranch title description =
     (case createError m of
        Some e \<Rightarrow> (None, Some e)
      | None \<Rightarrow>
          (Some \<lparr>MergeRequest.ID = 999, IID = 99, Title = title,
                 WebURL = ''https://gitlab.example.com/merge_requests/99'',
                 State = ''opened'', Draft = False, SourceBranch = [], TargetBranch = [],
                 ProjectID = 0\<rparr>, None))"

text \<open>
  A client without a world of its own, given by the five answers; the test double is one.
\<close>

definition pureClient ::
  "(string \<Rightarrow> Project option \<times> error) \<Rightarrow> (int \<Rightarrow> string \<Rightarrow> bool \<times> error)
     \<Rightarrow> (int \<Rightarrow> string \<Rightarrow> string \<Rightarrow> Compare option \<times> error)
     \<Rightarrow> (int \<Rightarrow> string \<Rightarrow> string \<Rightarrow> MergeRequest list \<times> error)
     \<Rightarrow> (int \<Rightarrow> string \<Rightarrow> string \<Rightarrow> string \<Rightarrow> string \<Rightarrow> MergeRequest option \<times> error)
     \<Rightarrow> unit GitLabClient" where
  "pureClient getProject branchExists compareBranches findOpen createMR =
     \<lparr>GetProject = (\<lambda>projectPath w. (getProject projectPath, w)),
      BranchExists = (\<lambda>projectID branch w. (branchExists projectID branch, w)),
      CompareBranches = (\<lambda>projectID sourceBranch targetBranch w.
         (compareBranches projectID sourceBranch targetBranch, w)),
      FindOpenMergeRequests = (\<lambda>projectID sourceBranch targetBranch w.
         (findOpen projectID sourceBranch targetBranch, w)),
      CreateMergeRequest = (\<lambda>projectID sourceBranch targetBranch title description w.
         (createMR projectID sourceBranch targetBranch title description, w))\<rparr>"

definition mockClient :: "mockGitLabClient \<Rightarrow> unit GitLabClient" where
  "mockClient m =
     pureClient (mock_GetProject m) (mock_BranchExists m) (mock_CompareBranches m)
       (mock_FindOpenMergeRequests m) (mock_CreateMergeRequest m)"

section \<open>Inputs for the examples\<close>

text \<open>
  The examples below use ASCII strings only, on which the standard library never reaches
  its Unicode tables; \<open>noUnicode\<close> closes them with the identity in that place.
\<close>

definition noUnicode :: unicode where
  "noUnicode = \<lparr>TrimSpaceNonASCII = (\<lambda>s. s), ToLowerNonASCII = (\<lambda>s. s)\<rparr>"

definition mkMR :: "int \<Rightarrow> int \<Rightarrow> string \<Rightarrow> bool \<Rightarrow> MergeRequest" where
  "mkMR ident iid title draft =
     \<lparr>MergeRequest.ID = ident, IID = iid, Title = title, WebURL = [], State = [],
      Draft = draft, SourceBranch = [], TargetBranch = [], ProjectID = 0\<rparr>"

text \<open>
  The repositories of the four tests of \<open>service_test.go\<close> (\<open>group/repo-a\<close> to
  \<open>group/repo-d\<close>) in one double, and three more: \<open>group/repo-e\<close> with a draft, a
  non-draft and another draft open, \<open>group/repo-f\<close> with two drafts open, and
  \<open>group/repo-g\<close> without the target branch.
\<close>

definition testMock :: mockGitLabClient where
  "testMock =
     (addBranch 7 ''op-stage'' \<circ> addProject ''group/repo-g'' 7
      \<circ> addMergeRequest 6 (mkMR 401 41 ''Second attempt'' True)
      \<circ> addMergeRequest 6 (mkMR 400 40 ''Draft: first attempt'' False)
      \<circ> addBranch 6 ''op-rc'' \<circ> addBranch 6 ''op-stage'' \<circ> addProject ''group/repo-f'' 6
      \<circ> addMergeRequest 5 (mkMR 302 32 ''Later draft'' True)
      \<circ> addMergeRequest 5 (mkMR 301 31 ''Release train'' False)
      \<circ> addMergeRequest 5 (mkMR 300 30 ''WIP: release train'' False)
      \<circ> addBranch 5 ''op-rc'' \<circ> addBranch 5 ''op-stage'' \<circ> addProject ''group/repo-e'' 5
      \<circ> addBranch 4 ''op-rc'' \<circ> addProject ''group/repo-d'' 4
      \<circ> addMergeRequest 3 (mkMR 200 20 ''Draft: Merge op-stage into op-rc'' False)
      \<circ> addBranch 3 ''op-rc'' \<circ> addBranch 3 ''op-stage'' \<circ> addProject ''group/repo-c'' 3
      \<circ> addMergeRequest 2 (mkMR 100 10 ''Merge op-stage into op-rc'' False)
      \<circ> addBranch 2 ''op-rc'' \<circ> addBranch 2 ''op-stage'' \<circ> addProject ''group/repo-b'' 2
      \<circ> addBranch 1 ''op-rc'' \<circ> addBranch 1 ''op-stage'' \<circ> addProject ''group/repo-a'' 1)
       newMockClient"

definition testConfig :: "string list \<Rightarrow> Config" where
  "testConfig paths =
     \<lparr>OriginBranch = ''op-stage'', TargetBranch = ''op-rc'', Projects = paths,
      Verbose = False\<rparr>"

text \<open>
  The double with a fault injected: the invocations for which \<open>fault\<close> gives an error fail
  with it (and the zero value), the others are answered by the double.
\<close>

definition faultyClient :: "mockGitLabClient \<Rightarrow> (call \<Rightarrow> error) \<Rightarrow> unit GitLabClient" where
  "faultyClient m fault =
     pureClient
       (\<lambda>projectPath.
          case fault (GetProjectCall projectPath) of
            Some e \<Rightarrow> (None, Some e) | None \<Rightarrow> mock_GetProject m projectPath)
       (\<lambda>projectID branch.
          case fault (BranchExistsCall projectID branch) of
            Some e \<Rightarrow> (False, Some e) | None \<Rightarrow> mock_BranchExists m projectID branch)
       (\<lambda>projectID sourceBranch targetBranch.
          case fault (CompareBranchesCall projectID sourceBranch targetBranch) of
            Some e \<Rightarrow> (None, Some e)
          | None \<Rightarrow> mock_CompareBranches m projectID sourceBranch targetBranch)
       (\<lambda>projectID sourceBranch targetBranch.
          case fault (FindOpenMergeRequestsCall projectID sourceBranch targetBranch) of
            Some e \<Rightarrow> ([], Some e)
          | None \<Rightarrow> mock_FindOpenMergeRequests m projectID sourceBranch targetBranch)
       (\<lambda>projectID sourceBranch targetBranch title description.
          case fault (CreateMergeRequestCall projectID sourceBranch targetBranch title
                        description) of
            Some e \<Rightarrow> (None, Some e)
          | None \<Rightarrow>
              mock_CreateMergeRequest m projectID sourceBranch targetBranch title description)"

text \<open>The double with a comparison that finds the given commits.\<close>

definition comparingClient :: "mockGitLabClient \<Rightarrow> Compare \<Rightarrow> unit GitLabClient" where
  "comparingClient m compare =
     pureClient (mock_GetProject m) (mock_BranchExists m)
       (\<lambda>projectID sourceBranch targetBranch. (Some compare, None))
       (mock_FindOpenMergeRequests m) (mock_CreateMergeRequest m)"

text \<open>A comparison without commits whose list of file differences is not empty.\<close>

definition diffsWithoutCommits :: Compare where
  "diffsWithoutCommits =
     \<lparr>Commit = \<lparr>Commit.ID = [], ShortID = [], Title = []\<rparr>, Commits = [],
      Diffs = [\<lparr>OldPath = ''README.md'', NewPath = ''README.md'', AMode = ''100644'',
                BMode = ''100644'', NewFile = False, RenamedFile = False,
                DeletedFile = False\<rparr>]\<rparr>"

text \<open>The fault that makes one given invocation fail with the given error.\<close>

definition failing :: "call \<Rightarrow> string \<Rightarrow> call \<Rightarrow> error" where
  "failing target e cl = (if cl = target then Some e else None)"

section \<open>The shape of an error result\<close>

text \<open>
  Each failing step of \<open>processProject\<close> returns the result it started with, which carries
  the path only, with the status \<open>ERROR\<close> and a message.
\<close>

definition errorResult :: "string \<Rightarrow> string \<Rightarrow> ProjectResult" where
  "errorResult projectPath message =
     \<lparr>Project = projectPath, Status = StatusError, MergeRequestID = 0, MergeRequestIID = 0,
      MergeRequestURL = [], ErrorMessage = message, Details = []\<rparr>"

section \<open>Reading the list of invocations\<close>

text \<open>The repository paths that were resolved, in the order of the \<open>GetProject\<close> calls.\<close>

fun resolutions :: "call list \<Rightarrow> string list" where
  "resolutions [] = []"
| "resolutions (GetProjectCall projectPath # cs) = projectPath # resolutions cs"
| "resolutions (_ # cs) = resolutions cs"

section \<open>Auxiliary facts\<close>

subsection \<open>Unfolding and evaluation\<close>

lemmas string_eval =
  ToLower_def TrimSpace_def HasPrefix_def isASCII_def asciiSpace_def lowerByte_def
  char_of_def bit_0 bit_Suc

lemma HasPrefix_prefix: "HasPrefix s pre \<longleftrightarrow> prefix pre s"
proof
  assume "HasPrefix s pre"
  then have "take (length pre) s = pre"
    by (simp add: HasPrefix_def)
  then have "s = pre @ drop (length pre) s"
    by (metis append_take_drop_id)
  then show "prefix pre s"
    by (metis prefixI)
next
  assume "prefix pre s"
  then obtain r where "s = pre @ r"
    by (auto elim: prefixE)
  then show "HasPrefix s pre"
    by (simp add: HasPrefix_def)
qed

lemmas client_defs =
  client_GetProject_def client_BranchExists_def client_CompareBranches_def
  client_FindOpenMergeRequests_def client_CreateMergeRequest_def

lemmas status_defs =
  StatusCreated_def StatusSkippedExists_def StatusSkippedDraft_def StatusSkippedBranch_def
  StatusSkippedNoChange_def StatusError_def

lemmas mock_eval =
  mockClient_def pureClient_def mock_GetProject_def mock_BranchExists_def
  mock_CompareBranches_def mock_FindOpenMergeRequests_def mock_CreateMergeRequest_def
  testMock_def addProject_def addBranch_def addMergeRequest_def newMockClient_def
  testConfig_def

subsection \<open>The scan of the open merge requests\<close>

lemma scanExisting_found:
  "list_all (IsDraft U) pre \<Longrightarrow> \<not> IsDraft U mr \<Longrightarrow>
   scanExisting U (pre @ mr # post) (h, r, d) =
     (True,
      r\<lparr>Status := StatusSkippedExists, MergeRequestID := MergeRequest.ID mr,
        MergeRequestIID := IID mr, MergeRequestURL := MergeRequest.WebURL mr,
        Details := ''Open MR already exists: !'' @ itoa (IID mr)\<rparr>,
      if pre = [] then d else Some (last pre))"
  by (induction pre arbitrary: d) auto

lemma scanExisting_drafts:
  "list_all (IsDraft U) mrs \<Longrightarrow>
   scanExisting U mrs (h, r, d) = (h, r, if mrs = [] then d else Some (last mrs))"
  by (induction mrs arbitrary: d) auto

lemma first_non_draft:
  assumes "\<not> list_all (IsDraft U) mrs"
  obtains pre mr post where
    "mrs = pre @ mr # post" "list_all (IsDraft U) pre" "\<not> IsDraft U mr"
proof -
  from assms have "\<exists>x \<in> set mrs. \<not> IsDraft U x"
    by (simp add: list_all_iff)
  then obtain pre mr post where
    "mrs = pre @ mr # post" "\<not> IsDraft U mr" "\<forall>y \<in> set pre. \<not> \<not> IsDraft U y"
    by (rule split_list_first_propE)
  then show thesis
    using that by (simp add: list_all_iff)
qed

subsection \<open>The invocations of one run of \<open>processProject\<close>\<close>

lemma resolutions_append: "resolutions (xs @ ys) = resolutions xs @ resolutions ys"
  by (induction xs rule: resolutions.induct) auto

lemma processProject_resolutions:
  assumes "processProject U c cfg projectPath (w, log) = (x, (w', log'))"
  shows "resolutions log' = resolutions log @ [projectPath]"
  using assms
  by (auto simp: processProject_def client_defs resolutions_append Let_def
           split: prod.splits option.splits if_splits)

lemma scanExisting_result:
  assumes "scanExisting U mrs (h, r, d) = (h', r', d')"
  shows "(h' \<and> Status r' = StatusSkippedExists \<and> Project r' = Project r)
         \<or> (h' = h \<and> r' = r \<and> (mrs \<noteq> [] \<longrightarrow> d' \<noteq> None))"
proof (cases "list_all (IsDraft U) mrs")
  case True
  from scanExisting_drafts [OF True, of h r d] assms show ?thesis
    by auto
next
  case False
  then obtain pre mr post where
    "mrs = pre @ mr # post" "list_all (IsDraft U) pre" "\<not> IsDraft U mr"
    by (rule first_non_draft)
  with scanExisting_found [of U pre mr post h r d] assms show ?thesis
    by auto
qed

lemma processProject_status:
  assumes "processProject U c cfg projectPath s = (Inr r, s')"
  shows "Project r = projectPath \<and>
         Status r \<in> {StatusCreated, StatusSkippedExists, StatusSkippedDraft,
                     StatusSkippedBranch, StatusSkippedNoChange, StatusError}"
  using assms
  by (auto simp: processProject_def client_defs Let_def
           split: prod.splits option.splits if_splits
           dest!: scanExisting_result)

subsection \<open>The loop of \<open>ProcessProjects\<close>\<close>

lemma processLoop_Inr:
  assumes "processLoop U c cfg paths (results, summary) s = (Inr (results', summary'), s')"
  shows "\<exists>new. results' = results @ new
           \<and> summary' = fold countStatus new summary
           \<and> list_all2 (\<lambda>path r. \<exists>s1 s2. processProject U c cfg path s1 = (Inr r, s2)) paths new
           \<and> resolutions (snd s') = resolutions (snd s) @ paths"
  using assms
proof (induction paths arbitrary: results summary s)
  case Nil
  then show ?case by simp
next
  case (Cons path rest)
  from Cons.prems obtain r s1 where
    step: "processProject U c cfg path s = (Inr r, s1)"
    and loop: "processLoop U c cfg rest (results @ [r], countStatus r summary) s1
                 = (Inr (results', summary'), s')"
    by (auto split: prod.splits sum.splits)
  from Cons.IH [OF loop] obtain new where new:
    "results' = (results @ [r]) @ new"
    "summary' = fold countStatus new (countStatus r summary)"
    "list_all2 (\<lambda>path r. \<exists>s1 s2. processProject U c cfg path s1 = (Inr r, s2)) rest new"
    "resolutions (snd s') = resolutions (snd s1) @ rest"
    by auto
  from step have "resolutions (snd s1) = resolutions (snd s) @ [path]"
    using processProject_resolutions [of U c cfg path "fst s" "snd s" "Inr r" "fst s1" "snd s1"]
    by simp
  moreover from step have "\<exists>s1 s2. processProject U c cfg path s1 = (Inr r, s2)"
    by blast
  ultimately show ?case
    using new by (intro exI [of _ "r # new"]) simp
qed

lemma fold_countStatus_Total: "Total (fold countStatus rs summary) = Total summary"
  by (induction rs arbitrary: summary) (auto simp: countStatus_def)

lemma fold_countStatus_counters:
  "Created (fold countStatus rs summary)
     = Created summary + int (length (filter (\<lambda>r. Status r = StatusCreated) rs))
   \<and> SkippedExists (fold countStatus rs summary)
     = SkippedExists summary + int (length (filter (\<lambda>r. Status r = StatusSkippedExists) rs))
   \<and> SkippedDraft (fold countStatus rs summary)
     = SkippedDraft summary + int (length (filter (\<lambda>r. Status r = StatusSkippedDraft) rs))
   \<and> SkippedBranch (fold countStatus rs summary)
     = SkippedBranch summary + int (length (filter (\<lambda>r. Status r = StatusSkippedBranch) rs))
   \<and> SkippedNoChange (fold countStatus rs summary)
     = SkippedNoChange summary
       + int (length (filter (\<lambda>r. Status r = StatusSkippedNoChange) rs))
   \<and> Errors (fold countStatus rs summary)
     = Errors summary + int (length (filter (\<lambda>r. Status r = StatusError) rs))"
  by (induction rs arbitrary: summary) (simp_all add: countStatus_def status_defs)

lemma fold_countStatus_sum:
  assumes "\<forall>r \<in> set rs. Status r \<in> {StatusCreated, StatusSkippedExists, StatusSkippedDraft,
                     StatusSkippedBranch, StatusSkippedNoChange, StatusError}"
  shows "Created (fold countStatus rs summary) + SkippedExists (fold countStatus rs summary)
         + SkippedDraft (fold countStatus rs summary)
         + SkippedBranch (fold countStatus rs summary)
         + SkippedNoChange (fold countStatus rs summary) + Errors (fold countStatus rs summary)
         = Created summary + SkippedExists summary + SkippedDraft summary
           + SkippedBranch summary + SkippedNoChange summary + Errors summary
           + int (length rs)"
  using assms
  by (induction rs arbitrary: summary) (auto simp: countStatus_def)

subsection \<open>A run of the test double\<close>

lemma testMock_run:
  "fst (ProcessProjects noUnicode (mockClient testMock)
     (testConfig [''group/repo-a'', ''group/repo-b'', ''group/repo-c'', ''group/repo-d'',
                  ''group/repo-a'']) ((), []))
   = Inr ([\<lparr>Project = ''group/repo-a'', Status = ''CREATED'', MergeRequestID = 999,
              MergeRequestIID = 99,
              MergeRequestURL = ''https://gitlab.example.com/merge_requests/99'',
              ErrorMessage = [],
              Details = ''MR !99: https://gitlab.example.com/merge_requests/99''\<rparr>,
            \<lparr>Project = ''group/repo-b'', Status = ''SKIPPED_EXISTS'', MergeRequestID = 100,
              MergeRequestIID = 10, MergeRequestURL = [], ErrorMessage = [],
              Details = ''Open MR already exists: !10''\<rparr>,
            \<lparr>Project = ''group/repo-c'', Status = ''SKIPPED_DRAFT'', MergeRequestID = 200,
              MergeRequestIID = 20, MergeRequestURL = [], ErrorMessage = [],
              Details = ''Draft MR exists: !20 (Draft: Merge op-stage into op-rc)''\<rparr>,
            \<lparr>Project = ''group/repo-d'', Status = ''SKIPPED_NO_BRANCH'', MergeRequestID = 0,
              MergeRequestIID = 0, MergeRequestURL = [], ErrorMessage = [],
              Details = ''Origin branch 'op-stage' does not exist''\<rparr>,
            \<lparr>Project = ''group/repo-a'', Status = ''CREATED'', MergeRequestID = 999,
              MergeRequestIID = 99,
              MergeRequestURL = ''https://gitlab.example.com/merge_requests/99'',
              ErrorMessage = [],
              Details = ''MR !99: https://gitlab.example.com/merge_requests/99''\<rparr>],
           \<lparr>Total = 5, Created = 2, SkippedExists = 1, SkippedDraft = 1, SkippedBranch = 1,
             SkippedNoChange = 0, Errors = 0\<rparr>)"
  by (simp add: ProcessProjects_def processProject_def client_defs mock_eval mockProject_def
        IsDraft_def mkMR_def string_eval HasChanges_def countStatus_def status_defs
        itoa_def decimal.simps)

subsection \<open>Runs that do not panic\<close>

lemma processProject_panics:
  assumes "processProject U c cfg projectPath s = (Inl p, s')"
  shows "(\<exists>w. fst (GetProject c projectPath w) = (None, None))
       \<or> (\<exists>projectID sourceBranch targetBranch w.
             fst (CompareBranches c projectID sourceBranch targetBranch w) = (None, None))
       \<or> (\<exists>projectID sourceBranch targetBranch title description w.
             fst (CreateMergeRequest c projectID sourceBranch targetBranch title description w)
               = (None, None))"
  using assms
  apply (simp add: processProject_def client_defs Let_def
           split: prod.splits option.splits if_splits)
    apply (metis fst_conv)+
  done

lemma processProject_returns:
  assumes "\<forall>w. fst (GetProject c projectPath w) \<noteq> (None, None)"
    and "\<forall>projectID sourceBranch targetBranch w.
           fst (CompareBranches c projectID sourceBranch targetBranch w) \<noteq> (None, None)"
    and "\<forall>projectID sourceBranch targetBranch title description w.
           fst (CreateMergeRequest c projectID sourceBranch targetBranch title description w)
             \<noteq> (None, None)"
  shows "\<exists>r s'. processProject U c cfg projectPath s = (Inr r, s')"
proof (cases "fst (processProject U c cfg projectPath s)")
  case (Inr r)
  then show ?thesis
    by (metis prod.collapse)
next
  case (Inl p)
  then have "processProject U c cfg projectPath s
               = (Inl p, snd (processProject U c cfg projectPath s))"
    by (simp add: prod_eq_iff)
  from processProject_panics [OF this] assms show ?thesis
    by blast
qed

lemma processLoop_returns:
  assumes "\<forall>projectPath \<in> set paths. \<forall>w. fst (GetProject c projectPath w) \<noteq> (None, None)"
    and "\<forall>projectID sourceBranch targetBranch w.
           fst (CompareBranches c projectID sourceBranch targetBranch w) \<noteq> (None, None)"
    and "\<forall>projectID sourceBranch targetBranch title description w.
           fst (CreateMergeRequest c projectID sourceBranch targetBranch title description w)
             \<noteq> (None, None)"
  shows "\<exists>results' summary' s'.
           processLoop U c cfg paths (results, summary) s = (Inr (results', summary'), s')"
  using assms(1)
proof (induction paths arbitrary: results summary s)
  case Nil
  then show ?case by simp
next
  case (Cons path rest)
  then have "\<forall>w. fst (GetProject c path w) \<noteq> (None, None)"
    by simp
  from processProject_returns [OF this assms(2) assms(3), of U cfg s]
  obtain r s1 where "processProject U c cfg path s = (Inr r, s1)"
    by blast
  moreover from Cons
  have "\<exists>results' summary' s'.
          processLoop U c cfg rest (results @ [r], countStatus r summary) s1
            = (Inr (results', summary'), s')"
    by simp
  ultimately show ?case
    by simp
qed

lemma ProcessProjects_whole_run:
  assumes "\<forall>projectPath \<in> set (Projects cfg).
             \<forall>w. fst (GetProject c projectPath w) \<noteq> (None, None)"
    and "\<forall>projectID sourceBranch targetBranch w.
           fst (CompareBranches c projectID sourceBranch targetBranch w) \<noteq> (None, None)"
    and "\<forall>projectID sourceBranch targetBranch title description w.
           fst (CreateMergeRequest c projectID sourceBranch targetBranch title description w)
             \<noteq> (None, None)"
  shows "\<exists>results summary s'.
           ProcessProjects U c cfg s = (Inr (results, summary), s')
           \<and> map Project results = Projects cfg
           \<and> resolutions (snd s') = resolutions (snd s) @ Projects cfg
           \<and> Errors summary = int (length (filter (\<lambda>r. Status r = StatusError) results))"
proof -
  let ?init = "\<lparr>Total = int (length (Projects cfg)), Created = 0, SkippedExists = 0,
                SkippedDraft = 0, SkippedBranch = 0, SkippedNoChange = 0, Errors = 0\<rparr>"
  from processLoop_returns [OF assms, of U cfg "[]" ?init s]
  obtain results summary s' where
    run: "processLoop U c cfg (Projects cfg) ([], ?init) s = (Inr (results, summary), s')"
    by blast
  from processLoop_Inr [OF run] have
    tally: "summary = fold countStatus results ?init"
    and each: "list_all2 (\<lambda>path r. \<exists>s1 s2. processProject U c cfg path s1 = (Inr r, s2))
                 (Projects cfg) results"
    and order: "resolutions (snd s') = resolutions (snd s) @ Projects cfg"
    by auto
  from each have len: "length results = length (Projects cfg)"
    by (simp add: list_all2_lengthD)
  have paths: "map Project results = Projects cfg"
  proof (rule nth_equalityI)
    show "length (map Project results) = length (Projects cfg)"
      using len by simp
  next
    fix i assume i: "i < length (map Project results)"
    with each len obtain s1 s2 where
      "processProject U c cfg (Projects cfg ! i) s1 = (Inr (results ! i), s2)"
      by (auto simp: list_all2_conv_all_nth)
    then have "Project (results ! i) = Projects cfg ! i"
      using processProject_status by blast
    with i show "map Project results ! i = Projects cfg ! i"
      by simp
  qed
  have errors: "Errors summary = int (length (filter (\<lambda>r. Status r = StatusError) results))"
    using fold_countStatus_counters [of results ?init] tally by simp
  from run paths order errors show ?thesis
    by (simp add: ProcessProjects_def)
qed

section \<open>The open merge requests decide first\<close>

text \<open>
  C1.  When both branches exist and the query for open merge requests returns a list that
  is not empty, the result is read off that list from the front: the first request that is
  not a draft gives \<open>SKIPPED_EXISTS\<close> with its ID, IID, URL and the detail
  \<open>Open MR already exists: !<IID>\<close>, whatever follows it in the list; when every request
  is a draft, the last one of the list gives \<open>SKIPPED_DRAFT\<close> with its ID, IID, URL and the
  detail \<open>Draft MR exists: !<IID> (<title>)\<close>.
\<close>

theorem processProject_scans_open_merge_requests:
  assumes gp: "GetProject c projectPath w0 = ((Some project, None), w1)"
    and bo: "BranchExists c (Project.ID project) (OriginBranch cfg) w1 = ((True, None), w2)"
    and bt: "BranchExists c (Project.ID project) (Config.TargetBranch cfg) w2
               = ((True, None), w3)"
    and fo: "FindOpenMergeRequests c (Project.ID project) (OriginBranch cfg)
               (Config.TargetBranch cfg) w3 = ((existingMRs, None), w4)"
    and ne: "existingMRs \<noteq> []"
  shows "(\<forall>pre mr post.
            existingMRs = pre @ mr # post \<and> list_all (IsDraft U) pre \<and> \<not> IsDraft U mr \<longrightarrow>
            fst (processProject U c cfg projectPath (w0, log)) =
              Inr \<lparr>Project = projectPath, Status = StatusSkippedExists,
                   MergeRequestID = MergeRequest.ID mr, MergeRequestIID = IID mr,
                   MergeRequestURL = MergeRequest.WebURL mr, ErrorMessage = [],
                   Details = ''Open MR already exists: !'' @ itoa (IID mr)\<rparr>)
       \<and> (list_all (IsDraft U) existingMRs \<longrightarrow>
            fst (processProject U c cfg projectPath (w0, log)) =
              Inr \<lparr>Project = projectPath, Status = StatusSkippedDraft,
                   MergeRequestID = MergeRequest.ID (last existingMRs),
                   MergeRequestIID = IID (last existingMRs),
                   MergeRequestURL = MergeRequest.WebURL (last existingMRs),
                   ErrorMessage = [],
                   Details = ''Draft MR exists: !'' @ itoa (IID (last existingMRs)) @ '' (''
                             @ MergeRequest.Title (last existingMRs) @ '')''\<rparr>)"
proof (intro conjI allI impI)
  fix pre mr post
  assume "existingMRs = pre @ mr # post \<and> list_all (IsDraft U) pre \<and> \<not> IsDraft U mr"
  then have scan: "scanExisting U existingMRs (False, r, None) =
      (True,
       r\<lparr>Status := StatusSkippedExists, MergeRequestID := MergeRequest.ID mr,
         MergeRequestIID := IID mr, MergeRequestURL := MergeRequest.WebURL mr,
         Details := ''Open MR already exists: !'' @ itoa (IID mr)\<rparr>,
       if pre = [] then None else Some (last pre))" for r
    using scanExisting_found by blast
  show "fst (processProject U c cfg projectPath (w0, log)) =
          Inr \<lparr>Project = projectPath, Status = StatusSkippedExists,
               MergeRequestID = MergeRequest.ID mr, MergeRequestIID = IID mr,
               MergeRequestURL = MergeRequest.WebURL mr, ErrorMessage = [],
               Details = ''Open MR already exists: !'' @ itoa (IID mr)\<rparr>"
    using gp bo bt fo ne by (simp add: processProject_def client_defs scan)
next
  assume "list_all (IsDraft U) existingMRs"
  then have scan: "scanExisting U existingMRs (False, r, None) =
      (False, r, Some (last existingMRs))" for r
    using scanExisting_drafts ne by simp
  show "fst (processProject U c cfg projectPath (w0, log)) =
          Inr \<lparr>Project = projectPath, Status = StatusSkippedDraft,
               MergeRequestID = MergeRequest.ID (last existingMRs),
               MergeRequestIID = IID (last existingMRs),
               MergeRequestURL = MergeRequest.WebURL (last existingMRs),
               ErrorMessage = [],
               Details = ''Draft MR exists: !'' @ itoa (IID (last existingMRs)) @ '' (''
                         @ MergeRequest.Title (last existingMRs) @ '')''\<rparr>"
    using gp bo bt fo ne by (simp add: processProject_def client_defs scan)
qed

text \<open>
  The theorem at \<open>group/repo-e\<close> (a draft, then a request that is not one, then a draft)
  and at \<open>group/repo-f\<close> (two drafts).
\<close>

theorem processProject_scans_open_merge_requests_witness:
  "fst (processProject noUnicode (mockClient testMock) (testConfig []) ''group/repo-e'' ((), []))
     = Inr \<lparr>Project = ''group/repo-e'', Status = ''SKIPPED_EXISTS'', MergeRequestID = 301,
            MergeRequestIID = 31, MergeRequestURL = [], ErrorMessage = [],
            Details = ''Open MR already exists: !31''\<rparr>
   \<and> fst (processProject noUnicode (mockClient testMock) (testConfig []) ''group/repo-f''
            ((), []))
     = Inr \<lparr>Project = ''group/repo-f'', Status = ''SKIPPED_DRAFT'', MergeRequestID = 401,
            MergeRequestIID = 41, MergeRequestURL = [], ErrorMessage = [],
            Details = ''Draft MR exists: !41 (Second attempt)''\<rparr>"
proof
  let ?c = "mockClient testMock" and ?cfg = "testConfig []"
  let ?e = "[mkMR 300 30 ''WIP: release train'' False, mkMR 301 31 ''Release train'' False,
             mkMR 302 32 ''Later draft'' True]"
  have gp: "GetProject ?c ''group/repo-e'' () = ((Some (mockProject ''group/repo-e'' 5), None), ())"
    by (simp add: mock_eval)
  have bo: "BranchExists ?c (Project.ID (mockProject ''group/repo-e'' 5)) (OriginBranch ?cfg) ()
              = ((True, None), ())"
    by (simp add: mock_eval mockProject_def)
  have bt: "BranchExists ?c (Project.ID (mockProject ''group/repo-e'' 5))
              (Config.TargetBranch ?cfg) () = ((True, None), ())"
    by (simp add: mock_eval mockProject_def)
  have fo: "FindOpenMergeRequests ?c (Project.ID (mockProject ''group/repo-e'' 5))
              (OriginBranch ?cfg) (Config.TargetBranch ?cfg) () = ((?e, None), ())"
    by (simp add: mock_eval mockProject_def)
  have ne: "?e \<noteq> []"
    by simp
  have split: "?e = [mkMR 300 30 ''WIP: release train'' False]
                 @ mkMR 301 31 ''Release train'' False # [mkMR 302 32 ''Later draft'' True]
               \<and> list_all (IsDraft noUnicode) [mkMR 300 30 ''WIP: release train'' False]
               \<and> \<not> IsDraft noUnicode (mkMR 301 31 ''Release train'' False)"
    by (simp add: IsDraft_def mkMR_def string_eval)
  from processProject_scans_open_merge_requests [OF gp bo bt fo ne, of noUnicode "[]"] split
  have "fst (processProject noUnicode ?c ?cfg ''group/repo-e'' ((), [])) =
          Inr \<lparr>Project = ''group/repo-e'', Status = StatusSkippedExists,
               MergeRequestID = MergeRequest.ID (mkMR 301 31 ''Release train'' False),
               MergeRequestIID = IID (mkMR 301 31 ''Release train'' False),
               MergeRequestURL = MergeRequest.WebURL (mkMR 301 31 ''Release train'' False),
               ErrorMessage = [],
               Details = ''Open MR already exists: !''
                         @ itoa (IID (mkMR 301 31 ''Release train'' False))\<rparr>"
    by blast
  then show "fst (processProject noUnicode ?c ?cfg ''group/repo-e'' ((), []))
     = Inr \<lparr>Project = ''group/repo-e'', Status = ''SKIPPED_EXISTS'', MergeRequestID = 301,
            MergeRequestIID = 31, MergeRequestURL = [], ErrorMessage = [],
            Details = ''Open MR already exists: !31''\<rparr>"
    by (simp add: mkMR_def status_defs itoa_def decimal.simps)
next
  let ?c = "mockClient testMock" and ?cfg = "testConfig []"
  let ?f = "[mkMR 400 40 ''Draft: first attempt'' False, mkMR 401 41 ''Second attempt'' True]"
  have gp: "GetProject ?c ''group/repo-f'' () = ((Some (mockProject ''group/repo-f'' 6), None), ())"
    by (simp add: mock_eval)
  have bo: "BranchExists ?c (Project.ID (mockProject ''group/repo-f'' 6)) (OriginBranch ?cfg) ()
              = ((True, None), ())"
    by (simp add: mock_eval mockProject_def)
  have bt: "BranchExists ?c (Project.ID (mockProject ''group/repo-f'' 6))
              (Config.TargetBranch ?cfg) () = ((True, None), ())"
    by (simp add: mock_eval mockProject_def)
  have fo: "FindOpenMergeRequests ?c (Project.ID (mockProject ''group/repo-f'' 6))
              (OriginBranch ?cfg) (Config.TargetBranch ?cfg) () = ((?f, None), ())"
    by (simp add: mock_eval mockProject_def)
  have ne: "?f \<noteq> []"
    by simp
  have drafts: "list_all (IsDraft noUnicode) ?f"
    by (simp add: IsDraft_def mkMR_def string_eval)
  from processProject_scans_open_merge_requests [OF gp bo bt fo ne, of noUnicode "[]"] drafts
  have "fst (processProject noUnicode ?c ?cfg ''group/repo-f'' ((), [])) =
          Inr \<lparr>Project = ''group/repo-f'', Status = StatusSkippedDraft,
               MergeRequestID = MergeRequest.ID (last ?f),
               MergeRequestIID = IID (last ?f),
               MergeRequestURL = MergeRequest.WebURL (last ?f),
               ErrorMessage = [],
               Details = ''Draft MR exists: !'' @ itoa (IID (last ?f)) @ '' (''
                         @ MergeRequest.Title (last ?f) @ '')''\<rparr>"
    by blast
  then show "fst (processProject noUnicode ?c ?cfg ''group/repo-f'' ((), []))
     = Inr \<lparr>Project = ''group/repo-f'', Status = ''SKIPPED_DRAFT'', MergeRequestID = 401,
            MergeRequestIID = 41, MergeRequestURL = [], ErrorMessage = [],
            Details = ''Draft MR exists: !41 (Second attempt)''\<rparr>"
    by (simp add: mkMR_def status_defs itoa_def decimal.simps)
qed

text \<open>
  C2.  When the query for open merge requests returns at least one request, draft or not,
  \<open>processProject\<close> returns after that query: the invocations of the run are the
  resolution, the two branch checks and the query, so \<open>CompareBranches\<close> and
  \<open>CreateMergeRequest\<close> are not invoked, and the status is not \<open>CREATED\<close>.  When the
  query succeeded and one of the requests is not a draft, the status is \<open>SKIPPED_EXISTS\<close>,
  on every run.
\<close>

theorem processProject_open_request_is_terminal:
  assumes gp: "GetProject c projectPath w0 = ((Some project, None), w1)"
    and bo: "BranchExists c (Project.ID project) (OriginBranch cfg) w1 = ((True, None), w2)"
    and bt: "BranchExists c (Project.ID project) (Config.TargetBranch cfg) w2
               = ((True, None), w3)"
    and fo: "FindOpenMergeRequests c (Project.ID project) (OriginBranch cfg)
               (Config.TargetBranch cfg) w3 = ((existingMRs, err), w4)"
    and ne: "existingMRs \<noteq> []"
  shows "\<exists>r. processProject U c cfg projectPath (w0, log) =
               (Inr r,
                (w4, log @ [GetProjectCall projectPath,
                            BranchExistsCall (Project.ID project) (OriginBranch cfg),
                            BranchExistsCall (Project.ID project) (Config.TargetBranch cfg),
                            FindOpenMergeRequestsCall (Project.ID project) (OriginBranch cfg)
                              (Config.TargetBranch cfg)]))
             \<and> Status r \<noteq> StatusCreated
             \<and> (err = None \<and> \<not> list_all (IsDraft U) existingMRs
                  \<longrightarrow> Status r = StatusSkippedExists)"
proof (cases err)
  case (Some e)
  with gp bo bt fo show ?thesis
    by (simp add: processProject_def client_defs status_defs)
next
  case None
  show ?thesis
  proof (cases "list_all (IsDraft U) existingMRs")
    case True
    then have scan: "scanExisting U existingMRs (False, r, None) =
        (False, r, Some (last existingMRs))" for r
      using scanExisting_drafts ne by simp
    from gp bo bt fo ne None True show ?thesis
      by (simp add: processProject_def client_defs scan status_defs)
  next
    case False
    then obtain pre mr post where
      "existingMRs = pre @ mr # post" "list_all (IsDraft U) pre" "\<not> IsDraft U mr"
      by (rule first_non_draft)
    then have scan: "scanExisting U existingMRs (False, r, None) =
        (True,
         r\<lparr>Status := StatusSkippedExists, MergeRequestID := MergeRequest.ID mr,
           MergeRequestIID := IID mr, MergeRequestURL := MergeRequest.WebURL mr,
           Details := ''Open MR already exists: !'' @ itoa (IID mr)\<rparr>,
         if pre = [] then None else Some (last pre))" for r
      using scanExisting_found by blast
    from gp bo bt fo ne None show ?thesis
      by (simp add: processProject_def client_defs scan status_defs)
  qed
qed

text \<open>The theorem at \<open>group/repo-b\<close>, which has one open request that is not a draft.\<close>

theorem processProject_open_request_is_terminal_witness:
  "\<exists>r. processProject noUnicode (mockClient testMock) (testConfig []) ''group/repo-b'' ((), [])
          = (Inr r,
             ((), [GetProjectCall ''group/repo-b'', BranchExistsCall 2 ''op-stage'',
                   BranchExistsCall 2 ''op-rc'',
                   FindOpenMergeRequestsCall 2 ''op-stage'' ''op-rc'']))
        \<and> Status r \<noteq> ''CREATED'' \<and> Status r = ''SKIPPED_EXISTS''"
proof -
  let ?c = "mockClient testMock" and ?cfg = "testConfig []"
  let ?p = "mockProject ''group/repo-b'' 2"
  let ?b = "[mkMR 100 10 ''Merge op-stage into op-rc'' False]"
  have gp: "GetProject ?c ''group/repo-b'' () = ((Some ?p, None), ())"
    by (simp add: mock_eval)
  have bo: "BranchExists ?c (Project.ID ?p) (OriginBranch ?cfg) () = ((True, None), ())"
    by (simp add: mock_eval mockProject_def)
  have bt: "BranchExists ?c (Project.ID ?p) (Config.TargetBranch ?cfg) () = ((True, None), ())"
    by (simp add: mock_eval mockProject_def)
  have fo: "FindOpenMergeRequests ?c (Project.ID ?p) (OriginBranch ?cfg)
              (Config.TargetBranch ?cfg) () = ((?b, None), ())"
    by (simp add: mock_eval mockProject_def)
  have ne: "?b \<noteq> []"
    by simp
  have nondraft: "\<not> list_all (IsDraft noUnicode) ?b"
    by (simp add: IsDraft_def mkMR_def string_eval)
  from processProject_open_request_is_terminal [OF gp bo bt fo ne, of noUnicode "[]"] nondraft
  show ?thesis
    by (simp add: mockProject_def testConfig_def status_defs)
qed

section \<open>The draft predicate\<close>

text \<open>
  C3.  \<open>IsDraft\<close> holds exactly when the \<open>Draft\<close> flag is set or the title, trimmed of
  surrounding white space and then lower-cased, starts with \<open>draft:\<close> or with \<open>wip:\<close>.
  The cases of the test table follow: the flag alone, the prefixes in either case and after
  leading blanks, and the titles that are not drafts, among them one that merely contains
  the word.
\<close>

theorem IsDraft_iff_flag_or_prefix:
  "(IsDraft U mr \<longleftrightarrow>
      Draft mr
      \<or> prefix ''draft:'' (ToLower U (TrimSpace U (MergeRequest.Title mr)))
      \<or> prefix ''wip:'' (ToLower U (TrimSpace U (MergeRequest.Title mr))))
   \<and> IsDraft U (mkMR 0 0 ''Regular title'' True)
   \<and> IsDraft U (mkMR 0 0 ''Draft: Implement new feature'' False)
   \<and> IsDraft U (mkMR 0 0 ''draft: Fix bug'' False)
   \<and> IsDraft U (mkMR 0 0 ''WIP: Work in progress'' False)
   \<and> IsDraft U (mkMR 0 0 ''wip: Testing'' False)
   \<and> IsDraft U (mkMR 0 0 ''  Draft: Feature'' False)
   \<and> IsDraft U (mkMR 0 0 ''Merge op-stage into op-rc'' False) = False
   \<and> IsDraft U (mkMR 0 0 ''This is a Draft version'' False) = False"
proof -
  have general: "IsDraft U mr \<longleftrightarrow>
      Draft mr
      \<or> prefix ''draft:'' (ToLower U (TrimSpace U (MergeRequest.Title mr)))
      \<or> prefix ''wip:'' (ToLower U (TrimSpace U (MergeRequest.Title mr)))"
    by (simp add: IsDraft_def Let_def HasPrefix_prefix)
  have cases:
    "IsDraft U (mkMR 0 0 ''Regular title'' True)"
    "IsDraft U (mkMR 0 0 ''Draft: Implement new feature'' False)"
    "IsDraft U (mkMR 0 0 ''draft: Fix bug'' False)"
    "IsDraft U (mkMR 0 0 ''WIP: Work in progress'' False)"
    "IsDraft U (mkMR 0 0 ''wip: Testing'' False)"
    "IsDraft U (mkMR 0 0 ''  Draft: Feature'' False)"
    "IsDraft U (mkMR 0 0 ''Merge op-stage into op-rc'' False) = False"
    "IsDraft U (mkMR 0 0 ''This is a Draft version'' False) = False"
    by (simp_all add: IsDraft_def mkMR_def string_eval)
  from general cases show ?thesis
    by blast
qed

section \<open>Missing branches\<close>

text \<open>
  C4.  When the check of the origin branch answers that it does not exist, the result is
  \<open>SKIPPED_NO_BRANCH\<close> with the detail \<open>Origin branch '<origin>' does not exist\<close>, and the
  invocations of the run are the resolution and that one check: the target branch is not
  checked.  When the origin branch exists and the check of the target branch, made after
  it, answers that the target does not exist, the result is \<open>SKIPPED_NO_BRANCH\<close> with the
  detail \<open>Target branch '<target>' does not exist\<close>.  In both cases no query for merge
  requests, no comparison and no creation is invoked.
\<close>

theorem processProject_missing_branch:
  assumes gp: "GetProject c projectPath w0 = ((Some project, None), w1)"
  shows "(BranchExists c (Project.ID project) (OriginBranch cfg) w1 = ((False, None), w2) \<longrightarrow>
            processProject U c cfg projectPath (w0, log) =
              (Inr \<lparr>Project = projectPath, Status = StatusSkippedBranch, MergeRequestID = 0,
                    MergeRequestIID = 0, MergeRequestURL = [], ErrorMessage = [],
                    Details = ''Origin branch '' @ [CHR 0x27] @ OriginBranch cfg @ [CHR 0x27]
                              @ '' does not exist''\<rparr>,
               (w2, log @ [GetProjectCall projectPath,
                           BranchExistsCall (Project.ID project) (OriginBranch cfg)])))
       \<and> (BranchExists c (Project.ID project) (OriginBranch cfg) w1 = ((True, None), w2)
            \<and> BranchExists c (Project.ID project) (Config.TargetBranch cfg) w2
                = ((False, None), w3) \<longrightarrow>
            processProject U c cfg projectPath (w0, log) =
              (Inr \<lparr>Project = projectPath, Status = StatusSkippedBranch, MergeRequestID = 0,
                    MergeRequestIID = 0, MergeRequestURL = [], ErrorMessage = [],
                    Details = ''Target branch '' @ [CHR 0x27] @ Config.TargetBranch cfg
                              @ [CHR 0x27] @ '' does not exist''\<rparr>,
               (w3, log @ [GetProjectCall projectPath,
                           BranchExistsCall (Project.ID project) (OriginBranch cfg),
                           BranchExistsCall (Project.ID project) (Config.TargetBranch cfg)])))"
  using gp by (simp add: processProject_def client_defs)

text \<open>
  The theorem at \<open>group/repo-d\<close>, which lacks the origin branch, and at \<open>group/repo-g\<close>,
  which lacks the target branch.
\<close>

theorem processProject_missing_branch_witness:
  "processProject noUnicode (mockClient testMock) (testConfig []) ''group/repo-d'' ((), [])
     = (Inr \<lparr>Project = ''group/repo-d'', Status = ''SKIPPED_NO_BRANCH'', MergeRequestID = 0,
             MergeRequestIID = 0, MergeRequestURL = [], ErrorMessage = [],
             Details = ''Origin branch 'op-stage' does not exist''\<rparr>,
        ((), [GetProjectCall ''group/repo-d'', BranchExistsCall 4 ''op-stage'']))
   \<and> processProject noUnicode (mockClient testMock) (testConfig []) ''group/repo-g'' ((), [])
     = (Inr \<lparr>Project = ''group/repo-g'', Status = ''SKIPPED_NO_BRANCH'', MergeRequestID = 0,
             MergeRequestIID = 0, MergeRequestURL = [], ErrorMessage = [],
             Details = ''Target branch 'op-rc' does not exist''\<rparr>,
        ((), [GetProjectCall ''group/repo-g'', BranchExistsCall 7 ''op-stage'',
              BranchExistsCall 7 ''op-rc'']))"
proof
  let ?c = "mockClient testMock" and ?cfg = "testConfig []"
  let ?p = "mockProject ''group/repo-d'' 4"
  have gp: "GetProject ?c ''group/repo-d'' () = ((Some ?p, None), ())"
    by (simp add: mock_eval)
  have bo: "BranchExists ?c (Project.ID ?p) (OriginBranch ?cfg) () = ((False, None), ())"
    by (simp add: mock_eval mockProject_def)
  from processProject_missing_branch [OF gp, of ?cfg "()" noUnicode "[]"] bo
  show "processProject noUnicode ?c ?cfg ''group/repo-d'' ((), [])
     = (Inr \<lparr>Project = ''group/repo-d'', Status = ''SKIPPED_NO_BRANCH'', MergeRequestID = 0,
             MergeRequestIID = 0, MergeRequestURL = [], ErrorMessage = [],
             Details = ''Origin branch 'op-stage' does not exist''\<rparr>,
        ((), [GetProjectCall ''group/repo-d'', BranchExistsCall 4 ''op-stage'']))"
    by (simp add: mockProject_def testConfig_def status_defs)
next
  let ?c = "mockClient testMock" and ?cfg = "testConfig []"
  let ?p = "mockProject ''group/repo-g'' 7"
  have gp: "GetProject ?c ''group/repo-g'' () = ((Some ?p, None), ())"
    by (simp add: mock_eval)
  have bo: "BranchExists ?c (Project.ID ?p) (OriginBranch ?cfg) () = ((True, None), ())"
    by (simp add: mock_eval mockProject_def)
  have bt: "BranchExists ?c (Project.ID ?p) (Config.TargetBranch ?cfg) () = ((False, None), ())"
    by (simp add: mock_eval mockProject_def)
  from processProject_missing_branch [OF gp, of ?cfg "()" noUnicode "[]" "()"] bo bt
  show "processProject noUnicode ?c ?cfg ''group/repo-g'' ((), [])
     = (Inr \<lparr>Project = ''group/repo-g'', Status = ''SKIPPED_NO_BRANCH'', MergeRequestID = 0,
             MergeRequestIID = 0, MergeRequestURL = [], ErrorMessage = [],
             Details = ''Target branch 'op-rc' does not exist''\<rparr>,
        ((), [GetProjectCall ''group/repo-g'', BranchExistsCall 7 ''op-stage'',
              BranchExistsCall 7 ''op-rc'']))"
    by (simp add: mockProject_def testConfig_def status_defs)
qed

section \<open>Nothing to merge\<close>

text \<open>
  C5.  When both branches exist, no merge request is open for the pair and the comparison
  succeeds, the list of commits of the comparison alone decides: if it is empty the result
  is \<open>SKIPPED_NO_CHANGE\<close> with the detail \<open>No changes between <origin> and <target>\<close> and
  the run ends with the comparison, \<open>CreateMergeRequest\<close> not invoked; if it is not empty
  the run goes on to invoke \<open>CreateMergeRequest\<close>.  \<open>HasChanges\<close> is the non-emptiness of
  the commit list and does not change with the list of file differences.
\<close>

theorem processProject_no_change:
  assumes gp: "GetProject c projectPath w0 = ((Some project, None), w1)"
    and bo: "BranchExists c (Project.ID project) (OriginBranch cfg) w1 = ((True, None), w2)"
    and bt: "BranchExists c (Project.ID project) (Config.TargetBranch cfg) w2
               = ((True, None), w3)"
    and fo: "FindOpenMergeRequests c (Project.ID project) (OriginBranch cfg)
               (Config.TargetBranch cfg) w3 = (([], None), w4)"
    and cb: "CompareBranches c (Project.ID project) (OriginBranch cfg)
               (Config.TargetBranch cfg) w4 = ((Some compare, None), w5)"
  shows "(Commits compare = [] \<longrightarrow>
            processProject U c cfg projectPath (w0, log) =
              (Inr \<lparr>Project = projectPath, Status = StatusSkippedNoChange, MergeRequestID = 0,
                    MergeRequestIID = 0, MergeRequestURL = [], ErrorMessage = [],
                    Details = ''No changes between '' @ OriginBranch cfg @ '' and ''
                              @ Config.TargetBranch cfg\<rparr>,
               (w5, log @ [GetProjectCall projectPath,
                           BranchExistsCall (Project.ID project) (OriginBranch cfg),
                           BranchExistsCall (Project.ID project) (Config.TargetBranch cfg),
                           FindOpenMergeRequestsCall (Project.ID project) (OriginBranch cfg)
                             (Config.TargetBranch cfg),
                           CompareBranchesCall (Project.ID project) (OriginBranch cfg)
                             (Config.TargetBranch cfg)])))
       \<and> (Commits compare \<noteq> [] \<longrightarrow>
            (\<exists>title description.
               last (snd (snd (processProject U c cfg projectPath (w0, log)))) =
                 CreateMergeRequestCall (Project.ID project) (OriginBranch cfg)
                   (Config.TargetBranch cfg) title description))
       \<and> HasChanges compare = (Commits compare \<noteq> [])
       \<and> HasChanges (compare\<lparr>Diffs := ds\<rparr>) = HasChanges compare"
proof (intro conjI impI)
  assume "Commits compare = []"
  with gp bo bt fo cb
  show "processProject U c cfg projectPath (w0, log) =
              (Inr \<lparr>Project = projectPath, Status = StatusSkippedNoChange, MergeRequestID = 0,
                    MergeRequestIID = 0, MergeRequestURL = [], ErrorMessage = [],
                    Details = ''No changes between '' @ OriginBranch cfg @ '' and ''
                              @ Config.TargetBranch cfg\<rparr>,
               (w5, log @ [GetProjectCall projectPath,
                           BranchExistsCall (Project.ID project) (OriginBranch cfg),
                           BranchExistsCall (Project.ID project) (Config.TargetBranch cfg),
                           FindOpenMergeRequestsCall (Project.ID project) (OriginBranch cfg)
                             (Config.TargetBranch cfg),
                           CompareBranchesCall (Project.ID project) (OriginBranch cfg)
                             (Config.TargetBranch cfg)]))"
    by (simp add: processProject_def client_defs HasChanges_def)
next
  assume "Commits compare \<noteq> []"
  with gp bo bt fo cb
  show "\<exists>title description.
          last (snd (snd (processProject U c cfg projectPath (w0, log)))) =
            CreateMergeRequestCall (Project.ID project) (OriginBranch cfg)
              (Config.TargetBranch cfg) title description"
    by (simp add: processProject_def client_defs HasChanges_def Let_def
             split: prod.splits option.splits)
next
  show "HasChanges compare = (Commits compare \<noteq> [])"
    by (simp add: HasChanges_def)
next
  show "HasChanges (compare\<lparr>Diffs := ds\<rparr>) = HasChanges compare"
    by (simp add: HasChanges_def)
qed

text \<open>
  The theorem at \<open>group/repo-a\<close>: with a comparison that has file differences but no
  commit nothing is created, and with the one commit of the test double the run ends in
  \<open>CreateMergeRequest\<close>.
\<close>

theorem processProject_no_change_witness:
  "processProject noUnicode (comparingClient testMock diffsWithoutCommits) (testConfig [])
       ''group/repo-a'' ((), [])
     = (Inr \<lparr>Project = ''group/repo-a'', Status = ''SKIPPED_NO_CHANGE'', MergeRequestID = 0,
             MergeRequestIID = 0, MergeRequestURL = [], ErrorMessage = [],
             Details = ''No changes between op-stage and op-rc''\<rparr>,
        ((), [GetProjectCall ''group/repo-a'', BranchExistsCall 1 ''op-stage'',
              BranchExistsCall 1 ''op-rc'', FindOpenMergeRequestsCall 1 ''op-stage'' ''op-rc'',
              CompareBranchesCall 1 ''op-stage'' ''op-rc'']))
   \<and> (\<exists>title description.
        last (snd (snd (processProject noUnicode (mockClient testMock) (testConfig [])
                          ''group/repo-a'' ((), []))))
          = CreateMergeRequestCall 1 ''op-stage'' ''op-rc'' title description)"
proof
  let ?c = "comparingClient testMock diffsWithoutCommits" and ?cfg = "testConfig []"
  let ?p = "mockProject ''group/repo-a'' 1"
  have gp: "GetProject ?c ''group/repo-a'' () = ((Some ?p, None), ())"
    by (simp add: comparingClient_def mock_eval)
  have bo: "BranchExists ?c (Project.ID ?p) (OriginBranch ?cfg) () = ((True, None), ())"
    by (simp add: comparingClient_def mock_eval mockProject_def)
  have bt: "BranchExists ?c (Project.ID ?p) (Config.TargetBranch ?cfg) () = ((True, None), ())"
    by (simp add: comparingClient_def mock_eval mockProject_def)
  have fo: "FindOpenMergeRequests ?c (Project.ID ?p) (OriginBranch ?cfg)
              (Config.TargetBranch ?cfg) () = (([], None), ())"
    by (simp add: comparingClient_def mock_eval mockProject_def)
  have cb: "CompareBranches ?c (Project.ID ?p) (OriginBranch ?cfg)
              (Config.TargetBranch ?cfg) () = ((Some diffsWithoutCommits, None), ())"
    by (simp add: comparingClient_def mock_eval)
  have empty: "Commits diffsWithoutCommits = []"
    by (simp add: diffsWithoutCommits_def)
  from processProject_no_change [OF gp bo bt fo cb, of noUnicode "[]"] empty
  show "processProject noUnicode ?c ?cfg ''group/repo-a'' ((), [])
     = (Inr \<lparr>Project = ''group/repo-a'', Status = ''SKIPPED_NO_CHANGE'', MergeRequestID = 0,
             MergeRequestIID = 0, MergeRequestURL = [], ErrorMessage = [],
             Details = ''No changes between op-stage and op-rc''\<rparr>,
        ((), [GetProjectCall ''group/repo-a'', BranchExistsCall 1 ''op-stage'',
              BranchExistsCall 1 ''op-rc'', FindOpenMergeRequestsCall 1 ''op-stage'' ''op-rc'',
              CompareBranchesCall 1 ''op-stage'' ''op-rc'']))"
    by (simp add: mockProject_def testConfig_def status_defs)
next
  let ?c = "mockClient testMock" and ?cfg = "testConfig []"
  let ?p = "mockProject ''group/repo-a'' 1"
  let ?cmp = "\<lparr>Commit = \<lparr>Commit.ID = [], ShortID = [], Title = []\<rparr>,
               Commits = [\<lparr>Commit.ID = ''abc123'', ShortID = ''abc123'',
                           Title = ''Test commit''\<rparr>],
               Diffs = []\<rparr>"
  have gp: "GetProject ?c ''group/repo-a'' () = ((Some ?p, None), ())"
    by (simp add: mock_eval)
  have bo: "BranchExists ?c (Project.ID ?p) (OriginBranch ?cfg) () = ((True, None), ())"
    by (simp add: mock_eval mockProject_def)
  have bt: "BranchExists ?c (Project.ID ?p) (Config.TargetBranch ?cfg) () = ((True, None), ())"
    by (simp add: mock_eval mockProject_def)
  have fo: "FindOpenMergeRequests ?c (Project.ID ?p) (OriginBranch ?cfg)
              (Config.TargetBranch ?cfg) () = (([], None), ())"
    by (simp add: mock_eval mockProject_def)
  have cb: "CompareBranches ?c (Project.ID ?p) (OriginBranch ?cfg)
              (Config.TargetBranch ?cfg) () = ((Some ?cmp, None), ())"
    by (simp add: mock_eval)
  have nonempty: "Commits ?cmp \<noteq> []"
    by simp
  from processProject_no_change [OF gp bo bt fo cb, of noUnicode "[]"] nonempty
  show "\<exists>title description.
        last (snd (snd (processProject noUnicode ?c ?cfg ''group/repo-a'' ((), []))))
          = CreateMergeRequestCall 1 ''op-stage'' ''op-rc'' title description"
    by (simp add: mockProject_def testConfig_def)
qed

section \<open>The summary\<close>

text \<open>
  C6.  For every list of results and summary that \<open>ProcessProjects\<close> returns, \<open>Total\<close> is
  the number of repository paths of the configuration, every result carries one of the six
  statuses, each of the six counters is the number of results with its status, and the six
  counters add up to \<open>Total\<close>.  The six statuses are different strings, so a result is
  counted exactly once.
\<close>

theorem ProcessProjects_summary_consistent:
  assumes "ProcessProjects U c cfg s = (Inr (results, summary), s')"
  shows "Total summary = int (length (Projects cfg))
       \<and> Created summary + SkippedExists summary + SkippedDraft summary
           + SkippedBranch summary + SkippedNoChange summary + Errors summary
         = Total summary
       \<and> (\<forall>r \<in> set results.
             Status r \<in> {StatusCreated, StatusSkippedExists, StatusSkippedDraft,
                           StatusSkippedBranch, StatusSkippedNoChange, StatusError})
       \<and> Created summary = int (length (filter (\<lambda>r. Status r = StatusCreated) results))
       \<and> SkippedExists summary
         = int (length (filter (\<lambda>r. Status r = StatusSkippedExists) results))
       \<and> SkippedDraft summary
         = int (length (filter (\<lambda>r. Status r = StatusSkippedDraft) results))
       \<and> SkippedBranch summary
         = int (length (filter (\<lambda>r. Status r = StatusSkippedBranch) results))
       \<and> SkippedNoChange summary
         = int (length (filter (\<lambda>r. Status r = StatusSkippedNoChange) results))
       \<and> Errors summary = int (length (filter (\<lambda>r. Status r = StatusError) results))
       \<and> distinct [StatusCreated, StatusSkippedExists, StatusSkippedDraft,
                    StatusSkippedBranch, StatusSkippedNoChange, StatusError]"
proof -
  let ?init = "\<lparr>Total = int (length (Projects cfg)), Created = 0, SkippedExists = 0,
                SkippedDraft = 0, SkippedBranch = 0, SkippedNoChange = 0, Errors = 0\<rparr>"
  from assms have "processLoop U c cfg (Projects cfg) ([], ?init) s
                     = (Inr (results, summary), s')"
    by (simp add: ProcessProjects_def)
  then obtain new where new:
    "results = [] @ new" "summary = fold countStatus new ?init"
    "list_all2 (\<lambda>path r. \<exists>s1 s2. processProject U c cfg path s1 = (Inr r, s2))
       (Projects cfg) new"
    using processLoop_Inr by blast
  from new(3) have len: "length new = length (Projects cfg)"
    by (simp add: list_all2_lengthD)
  have statuses: "\<forall>r \<in> set new.
      Status r \<in> {StatusCreated, StatusSkippedExists, StatusSkippedDraft,
                    StatusSkippedBranch, StatusSkippedNoChange, StatusError}"
  proof
    fix r assume "r \<in> set new"
    with new(3) obtain path s1 s2 where "processProject U c cfg path s1 = (Inr r, s2)"
      by (auto simp: list_all2_conv_all_nth in_set_conv_nth)
    then show "Status r \<in> {StatusCreated, StatusSkippedExists, StatusSkippedDraft,
                    StatusSkippedBranch, StatusSkippedNoChange, StatusError}"
      using processProject_status by blast
  qed
  have total: "Total summary = int (length (Projects cfg))"
    using new(2) by (simp add: fold_countStatus_Total)
  have sum: "Created summary + SkippedExists summary + SkippedDraft summary
           + SkippedBranch summary + SkippedNoChange summary + Errors summary
         = Total summary"
    using fold_countStatus_sum [OF statuses, of ?init] new(2) len total by simp
  have counters:
    "Created summary = int (length (filter (\<lambda>r. Status r = StatusCreated) results))"
    "SkippedExists summary
       = int (length (filter (\<lambda>r. Status r = StatusSkippedExists) results))"
    "SkippedDraft summary
       = int (length (filter (\<lambda>r. Status r = StatusSkippedDraft) results))"
    "SkippedBranch summary
       = int (length (filter (\<lambda>r. Status r = StatusSkippedBranch) results))"
    "SkippedNoChange summary
       = int (length (filter (\<lambda>r. Status r = StatusSkippedNoChange) results))"
    "Errors summary = int (length (filter (\<lambda>r. Status r = StatusError) results))"
    using fold_countStatus_counters [of new ?init] new(1,2) by simp_all
  have different: "distinct [StatusCreated, StatusSkippedExists, StatusSkippedDraft,
                    StatusSkippedBranch, StatusSkippedNoChange, StatusError]"
    by (simp add: status_defs)
  from total sum statuses counters different new(1) show ?thesis
    by simp
qed

text \<open>
  The theorem at a run of the test double over five paths, one of them twice.
\<close>

theorem ProcessProjects_summary_consistent_witness:
  "\<exists>results summary s'.
     ProcessProjects noUnicode (mockClient testMock)
       (testConfig [''group/repo-a'', ''group/repo-b'', ''group/repo-c'', ''group/repo-d'',
                    ''group/repo-a'']) ((), [])
       = (Inr (results, summary), s')
     \<and> Total summary = 5
     \<and> Created summary + SkippedExists summary + SkippedDraft summary
         + SkippedBranch summary + SkippedNoChange summary + Errors summary = 5
     \<and> length (filter (\<lambda>r. Status r = ''CREATED'') results) = 2
     \<and> Created summary = 2"
proof -
  let ?run = "ProcessProjects noUnicode (mockClient testMock)
       (testConfig [''group/repo-a'', ''group/repo-b'', ''group/repo-c'', ''group/repo-d'',
                    ''group/repo-a'']) ((), [])"
  from testMock_run obtain results summary where
    run: "?run = (Inr (results, summary), snd ?run)"
    and summary: "Created summary = 2"
    by (metis prod.collapse Summary.select_convs(2))
  from ProcessProjects_summary_consistent [OF run]
  have "Total summary = 5"
    and "Created summary + SkippedExists summary + SkippedDraft summary
         + SkippedBranch summary + SkippedNoChange summary + Errors summary = 5"
    and "Created summary = int (length (filter (\<lambda>r. Status r = ''CREATED'') results))"
    by (simp_all add: testConfig_def status_defs)
  with run summary show ?thesis
    by (intro exI [of _ results] exI [of _ summary] exI [of _ "snd ?run"]) simp
qed

section \<open>Failures of the client\<close>

text \<open>
  C7, as stated, asks for a message with a context naming the failing operation at every
  failing call.  At the resolution of the project the message is the client's own text and
  nothing else: here the client fails with \<open>connection refused\<close>, and that is the whole
  message of the result.
\<close>

theorem resolution_failure_message_is_not_wrapped:
  "fst (GetProject
          (faultyClient testMock (failing (GetProjectCall ''group/repo-a'') ''connection refused''))
          ''group/repo-a'' ())
     = (None, Some ''connection refused'')
   \<and> fst (processProject noUnicode
            (faultyClient testMock (failing (GetProjectCall ''group/repo-a'') ''connection refused''))
            (testConfig []) ''group/repo-a'' ((), []))
     = Inr \<lparr>Project = ''group/repo-a'', Status = ''ERROR'', MergeRequestID = 0,
            MergeRequestIID = 0, MergeRequestURL = [], ErrorMessage = ''connection refused'',
            Details = []\<rparr>"
  by (simp add: processProject_def client_defs faultyClient_def failing_def mock_eval
        status_defs)

text \<open>
  C7, amended.  A failure of any of the six calls ends the run of \<open>processProject\<close> with
  that call as its last invocation and the result \<open>ERROR\<close> for the path.  The message is
  the client's text unchanged when the resolution of the project fails, and the client's
  text after a context naming the operation when a later call fails:
  \<open>failed to check origin branch: \<close>, \<open>failed to check target branch: \<close>,
  \<open>failed to find existing merge requests: \<close>, \<open>failed to compare branches: \<close>,
  \<open>failed to create merge request: \<close>.  After an \<open>ERROR\<close> result the loop of
  \<open>ProcessProjects\<close> records and counts it and goes on with the remaining paths.  For
  whole runs: with a client that never returns a \<open>nil\<close> pointer together with a \<open>nil\<close>
  error, \<open>ProcessProjects\<close> returns, whatever calls fail and however many, a result for
  every configured path in the order of the paths, having resolved every one of them, and
  \<open>Errors\<close> is the number of results with status \<open>ERROR\<close>.
\<close>

theorem processProject_failure_is_error_result:
  assumes title: "title = ''Merge '' @ OriginBranch cfg @ '' into '' @ Config.TargetBranch cfg"
    and description: "description =
           ''This merge request was created automatically by gitlab-tools.''
           @ [CHR 0x0A, CHR 0x0A] @ ''**Source Branch**: '' @ [CHR 0x60] @ OriginBranch cfg
           @ [CHR 0x60, CHR 0x0A] @ ''**Target Branch**: '' @ [CHR 0x60]
           @ Config.TargetBranch cfg @ [CHR 0x60]"
  shows
   "(GetProject c projectPath w0 = ((p, Some e), w1) \<longrightarrow>
       processProject U c cfg projectPath (w0, log) =
         (Inr (errorResult projectPath e), (w1, log @ [GetProjectCall projectPath])))
    \<and> (GetProject c projectPath w0 = ((Some project, None), w1) \<longrightarrow>
       (BranchExists c (Project.ID project) (OriginBranch cfg) w1 = ((b, Some e), w2) \<longrightarrow>
          processProject U c cfg projectPath (w0, log) =
            (Inr (errorResult projectPath (''failed to check origin branch: '' @ e)),
             (w2, log @ [GetProjectCall projectPath,
                         BranchExistsCall (Project.ID project) (OriginBranch cfg)])))
     \<and> (BranchExists c (Project.ID project) (OriginBranch cfg) w1 = ((True, None), w2) \<longrightarrow>
       (BranchExists c (Project.ID project) (Config.TargetBranch cfg) w2
          = ((b, Some e), w3) \<longrightarrow>
          processProject U c cfg projectPath (w0, log) =
            (Inr (errorResult projectPath (''failed to check target branch: '' @ e)),
             (w3, log @ [GetProjectCall projectPath,
                         BranchExistsCall (Project.ID project) (OriginBranch cfg),
                         BranchExistsCall (Project.ID project) (Config.TargetBranch cfg)])))
     \<and> (BranchExists c (Project.ID project) (Config.TargetBranch cfg) w2
          = ((True, None), w3) \<longrightarrow>
       (FindOpenMergeRequests c (Project.ID project) (OriginBranch cfg)
          (Config.TargetBranch cfg) w3 = ((mrs, Some e), w4) \<longrightarrow>
          processProject U c cfg projectPath (w0, log) =
            (Inr (errorResult projectPath (''failed to find existing merge requests: '' @ e)),
             (w4, log @ [GetProjectCall projectPath,
                         BranchExistsCall (Project.ID project) (OriginBranch cfg),
                         BranchExistsCall (Project.ID project) (Config.TargetBranch cfg),
                         FindOpenMergeRequestsCall (Project.ID project) (OriginBranch cfg)
                           (Config.TargetBranch cfg)])))
     \<and> (FindOpenMergeRequests c (Project.ID project) (OriginBranch cfg)
          (Config.TargetBranch cfg) w3 = (([], None), w4) \<longrightarrow>
       (CompareBranches c (Project.ID project) (OriginBranch cfg)
          (Config.TargetBranch cfg) w4 = ((cmp, Some e), w5) \<longrightarrow>
          processProject U c cfg projectPath (w0, log) =
            (Inr (errorResult projectPath (''failed to compare branches: '' @ e)),
             (w5, log @ [GetProjectCall projectPath,
                         BranchExistsCall (Project.ID project) (OriginBranch cfg),
                         BranchExistsCall (Project.ID project) (Config.TargetBranch cfg),
                         FindOpenMergeRequestsCall (Project.ID project) (OriginBranch cfg)
                           (Config.TargetBranch cfg),
                         CompareBranchesCall (Project.ID project) (OriginBranch cfg)
                           (Config.TargetBranch cfg)])))
     \<and> (CompareBranches c (Project.ID project) (OriginBranch cfg)
          (Config.TargetBranch cfg) w4 = ((Some compare, None), w5)
        \<and> Commits compare \<noteq> []
        \<and> CreateMergeRequest c (Project.ID project) (OriginBranch cfg)
            (Config.TargetBranch cfg) title description w5 = ((m, Some e), w6) \<longrightarrow>
          processProject U c cfg projectPath (w0, log) =
            (Inr (errorResult projectPath (''failed to create merge request: '' @ e)),
             (w6, log @ [GetProjectCall projectPath,
                         BranchExistsCall (Project.ID project) (OriginBranch cfg),
                         BranchExistsCall (Project.ID project) (Config.TargetBranch cfg),
                         FindOpenMergeRequestsCall (Project.ID project) (OriginBranch cfg)
                           (Config.TargetBranch cfg),
                         CompareBranchesCall (Project.ID project) (OriginBranch cfg)
                           (Config.TargetBranch cfg),
                         CreateMergeRequestCall (Project.ID project) (OriginBranch cfg)
                           (Config.TargetBranch cfg) title description])))))))
    \<and> (processProject U c cfg projectPath s = (Inr r, s1) \<and> Status r = StatusError \<longrightarrow>
       processLoop U c cfg (projectPath # rest) (results, summary) s =
         processLoop U c cfg rest (results @ [r], summary\<lparr>Errors := Errors summary + 1\<rparr>) s1)
    \<and> ((\<forall>path \<in> set (Projects cfg). \<forall>w. fst (GetProject c path w) \<noteq> (None, None))
        \<and> (\<forall>projectID sourceBranch targetBranch w.
              fst (CompareBranches c projectID sourceBranch targetBranch w) \<noteq> (None, None))
        \<and> (\<forall>projectID sourceBranch targetBranch t d w.
              fst (CreateMergeRequest c projectID sourceBranch targetBranch t d w)
                \<noteq> (None, None)) \<longrightarrow>
       (\<exists>allResults total s'.
          ProcessProjects U c cfg s = (Inr (allResults, total), s')
          \<and> map Project allResults = Projects cfg
          \<and> resolutions (snd s') = resolutions (snd s) @ Projects cfg
          \<and> Errors total
              = int (length (filter (\<lambda>r. Status r = StatusError) allResults))))"
  (is "?resolution \<and> ?later \<and> ?step \<and> ?runs")
proof (intro conjI)
  show ?resolution
    by (simp add: processProject_def client_defs errorResult_def)
  show ?later
    unfolding title description
    by (simp add: processProject_def client_defs errorResult_def HasChanges_def)
  show ?step
    by (simp add: countStatus_def status_defs)
  show ?runs
  proof
    assume "(\<forall>path \<in> set (Projects cfg). \<forall>w. fst (GetProject c path w) \<noteq> (None, None))
        \<and> (\<forall>projectID sourceBranch targetBranch w.
              fst (CompareBranches c projectID sourceBranch targetBranch w) \<noteq> (None, None))
        \<and> (\<forall>projectID sourceBranch targetBranch t d w.
              fst (CreateMergeRequest c projectID sourceBranch targetBranch t d w)
                \<noteq> (None, None))"
    then have
      gp: "\<forall>path \<in> set (Projects cfg). \<forall>w. fst (GetProject c path w) \<noteq> (None, None)"
      and cb: "\<forall>projectID sourceBranch targetBranch w.
              fst (CompareBranches c projectID sourceBranch targetBranch w) \<noteq> (None, None)"
      and cm: "\<forall>projectID sourceBranch targetBranch t d w.
              fst (CreateMergeRequest c projectID sourceBranch targetBranch t d w)
                \<noteq> (None, None)"
      by blast+
    from ProcessProjects_whole_run [OF gp cb cm, of U s]
    show "\<exists>allResults total s'.
          ProcessProjects U c cfg s = (Inr (allResults, total), s')
          \<and> map Project allResults = Projects cfg
          \<and> resolutions (snd s') = resolutions (snd s) @ Projects cfg
          \<and> Errors total
              = int (length (filter (\<lambda>r. Status r = StatusError) allResults))" .
  qed
qed

text \<open>
  The theorem at \<open>group/repo-a\<close> of the test double, with a fault at each of the six calls
  in turn, and at a run over \<open>group/repo-a\<close> and \<open>group/repo-b\<close> in which the resolution of
  the first fails: the second is processed all the same.  In the last run the resolution of
  \<open>group/repo-a\<close> fails twice, and each time the next path is processed.
\<close>

theorem processProject_failure_is_error_result_witness:
  "fst (processProject noUnicode
          (faultyClient testMock (failing (GetProjectCall ''group/repo-a'') ''timeout''))
          (testConfig []) ''group/repo-a'' ((), []))
     = Inr (errorResult ''group/repo-a'' ''timeout'')
   \<and> fst (processProject noUnicode
          (faultyClient testMock (failing (BranchExistsCall 1 ''op-stage'') ''timeout''))
          (testConfig []) ''group/repo-a'' ((), []))
     = Inr (errorResult ''group/repo-a'' ''failed to check origin branch: timeout'')
   \<and> fst (processProject noUnicode
          (faultyClient testMock (failing (BranchExistsCall 1 ''op-rc'') ''timeout''))
          (testConfig []) ''group/repo-a'' ((), []))
     = Inr (errorResult ''group/repo-a'' ''failed to check target branch: timeout'')
   \<and> fst (processProject noUnicode
          (faultyClient testMock
             (failing (FindOpenMergeRequestsCall 1 ''op-stage'' ''op-rc'') ''timeout''))
          (testConfig []) ''group/repo-a'' ((), []))
     = Inr (errorResult ''group/repo-a'' ''failed to find existing merge requests: timeout'')
   \<and> fst (processProject noUnicode
          (faultyClient testMock
             (failing (CompareBranchesCall 1 ''op-stage'' ''op-rc'') ''timeout''))
          (testConfig []) ''group/repo-a'' ((), []))
     = Inr (errorResult ''group/repo-a'' ''failed to compare branches: timeout'')
   \<and> fst (processProject noUnicode (mockClient (testMock\<lparr>createError := Some ''timeout''\<rparr>))
          (testConfig []) ''group/repo-a'' ((), []))
     = Inr (errorResult ''group/repo-a'' ''failed to create merge request: timeout'')
   \<and> fst (ProcessProjects noUnicode
          (faultyClient testMock (failing (GetProjectCall ''group/repo-a'') ''timeout''))
          (testConfig [''group/repo-a'', ''group/repo-b'']) ((), []))
     = Inr ([errorResult ''group/repo-a'' ''timeout'',
             \<lparr>Project = ''group/repo-b'', Status = ''SKIPPED_EXISTS'', MergeRequestID = 100,
               MergeRequestIID = 10, MergeRequestURL = [], ErrorMessage = [],
               Details = ''Open MR already exists: !10''\<rparr>],
            \<lparr>Total = 2, Created = 0, SkippedExists = 1, SkippedDraft = 0, SkippedBranch = 0,
              SkippedNoChange = 0, Errors = 1\<rparr>)
   \<and> (\<exists>allResults total s'.
        ProcessProjects noUnicode
          (faultyClient testMock (failing (GetProjectCall ''group/repo-a'') ''timeout''))
          (testConfig [''group/repo-a'', ''group/repo-b'', ''group/repo-a'', ''group/repo-c''])
          ((), [])
          = (Inr (allResults, total), s')
        \<and> map Project allResults
            = [''group/repo-a'', ''group/repo-b'', ''group/repo-a'', ''group/repo-c'']
        \<and> map Status allResults = [''ERROR'', ''SKIPPED_EXISTS'', ''ERROR'', ''SKIPPED_DRAFT'']
        \<and> resolutions (snd s')
            = [''group/repo-a'', ''group/repo-b'', ''group/repo-a'', ''group/repo-c'']
        \<and> Errors total = 2)"
proof (intro conjI)
  let ?cfg = "testConfig []"
  let ?p = "mockProject ''group/repo-a'' 1"
  let ?cmp = "\<lparr>Commit = \<lparr>Commit.ID = [], ShortID = [], Title = []\<rparr>,
               Commits = [\<lparr>Commit.ID = ''abc123'', ShortID = ''abc123'',
                           Title = ''Test commit''\<rparr>],
               Diffs = []\<rparr>"
  let ?title = "''Merge '' @ OriginBranch ?cfg @ '' into '' @ Config.TargetBranch ?cfg"
  let ?description = "''This merge request was created automatically by gitlab-tools.''
           @ [CHR 0x0A, CHR 0x0A] @ ''**Source Branch**: '' @ [CHR 0x60] @ OriginBranch ?cfg
           @ [CHR 0x60, CHR 0x0A] @ ''**Target Branch**: '' @ [CHR 0x60]
           @ Config.TargetBranch ?cfg @ [CHR 0x60]"
  note eval = faultyClient_def failing_def mock_eval mockProject_def
  note inst = processProject_failure_is_error_result
    [OF refl refl, where projectPath = "''group/repo-a''" and cfg = ?cfg and U = noUnicode
       and log = "[]" and ?w0.0 = "()" and ?w1.0 = "()" and ?w2.0 = "()" and ?w3.0 = "()"
       and ?w4.0 = "()" and ?w5.0 = "()" and ?w6.0 = "()" and e = "''timeout''"
       and project = ?p and compare = ?cmp]

  let ?c1 = "faultyClient testMock (failing (GetProjectCall ''group/repo-a'') ''timeout'')"
  have "GetProject ?c1 ''group/repo-a'' () = ((None, Some ''timeout''), ())"
    by (simp add: eval)
  with inst [where c = ?c1 and p = None]
  show "fst (processProject noUnicode ?c1 ?cfg ''group/repo-a'' ((), []))
          = Inr (errorResult ''group/repo-a'' ''timeout'')"
    by simp

  let ?c2 = "faultyClient testMock (failing (BranchExistsCall 1 ''op-stage'') ''timeout'')"
  have "GetProject ?c2 ''group/repo-a'' () = ((Some ?p, None), ())"
    "BranchExists ?c2 (Project.ID ?p) (OriginBranch ?cfg) () = ((False, Some ''timeout''), ())"
    by (simp_all add: eval)
  with inst [where c = ?c2 and b = False]
  show "fst (processProject noUnicode ?c2 ?cfg ''group/repo-a'' ((), []))
          = Inr (errorResult ''group/repo-a'' ''failed to check origin branch: timeout'')"
    by simp

  let ?c3 = "faultyClient testMock (failing (BranchExistsCall 1 ''op-rc'') ''timeout'')"
  have "GetProject ?c3 ''group/repo-a'' () = ((Some ?p, None), ())"
    "BranchExists ?c3 (Project.ID ?p) (OriginBranch ?cfg) () = ((True, None), ())"
    "BranchExists ?c3 (Project.ID ?p) (Config.TargetBranch ?cfg) ()
       = ((False, Some ''timeout''), ())"
    by (simp_all add: eval)
  with inst [where c = ?c3 and b = False]
  show "fst (processProject noUnicode ?c3 ?cfg ''group/repo-a'' ((), []))
          = Inr (errorResult ''group/repo-a'' ''failed to check target branch: timeout'')"
    by simp

  let ?c4 = "faultyClient testMock
               (failing (FindOpenMergeRequestsCall 1 ''op-stage'' ''op-rc'') ''timeout'')"
  have "GetProject ?c4 ''group/repo-a'' () = ((Some ?p, None), ())"
    "BranchExists ?c4 (Project.ID ?p) (OriginBranch ?cfg) () = ((True, None), ())"
    "BranchExists ?c4 (Project.ID ?p) (Config.TargetBranch ?cfg) () = ((True, None), ())"
    "FindOpenMergeRequests ?c4 (Project.ID ?p) (OriginBranch ?cfg) (Config.TargetBranch ?cfg) ()
       = (([], Some ''timeout''), ())"
    by (simp_all add: eval)
  with inst [where c = ?c4 and mrs = "[]"]
  show "fst (processProject noUnicode ?c4 ?cfg ''group/repo-a'' ((), []))
          = Inr (errorResult ''group/repo-a''
                   ''failed to find existing merge requests: timeout'')"
    by simp

  let ?c5 = "faultyClient testMock
               (failing (CompareBranchesCall 1 ''op-stage'' ''op-rc'') ''timeout'')"
  have "GetProject ?c5 ''group/repo-a'' () = ((Some ?p, None), ())"
    "BranchExists ?c5 (Project.ID ?p) (OriginBranch ?cfg) () = ((True, None), ())"
    "BranchExists ?c5 (Project.ID ?p) (Config.TargetBranch ?cfg) () = ((True, None), ())"
    "FindOpenMergeRequests ?c5 (Project.ID ?p) (OriginBranch ?cfg) (Config.TargetBranch ?cfg) ()
       = (([], None), ())"
    "CompareBranches ?c5 (Project.ID ?p) (OriginBranch ?cfg) (Config.TargetBranch ?cfg) ()
       = ((None, Some ''timeout''), ())"
    by (simp_all add: eval)
  with inst [where c = ?c5 and cmp = None]
  show "fst (processProject noUnicode ?c5 ?cfg ''group/repo-a'' ((), []))
          = Inr (errorResult ''group/repo-a'' ''failed to compare branches: timeout'')"
    by simp

  let ?c6 = "mockClient (testMock\<lparr>createError := Some ''timeout''\<rparr>)"
  have "GetProject ?c6 ''group/repo-a'' () = ((Some ?p, None), ())"
    "BranchExists ?c6 (Project.ID ?p) (OriginBranch ?cfg) () = ((True, None), ())"
    "BranchExists ?c6 (Project.ID ?p) (Config.TargetBranch ?cfg) () = ((True, None), ())"
    "FindOpenMergeRequests ?c6 (Project.ID ?p) (OriginBranch ?cfg) (Config.TargetBranch ?cfg) ()
       = (([], None), ())"
    "CompareBranches ?c6 (Project.ID ?p) (OriginBranch ?cfg) (Config.TargetBranch ?cfg) ()
       = ((Some ?cmp, None), ())"
    "Commits ?cmp \<noteq> []"
    "CreateMergeRequest ?c6 (Project.ID ?p) (OriginBranch ?cfg) (Config.TargetBranch ?cfg)
       ?title ?description () = ((None, Some ''timeout''), ())"
    by (simp_all add: eval)
  with inst [where c = ?c6 and m = None]
  show "fst (processProject noUnicode ?c6 ?cfg ''group/repo-a'' ((), []))
          = Inr (errorResult ''group/repo-a'' ''failed to create merge request: timeout'')"
    by simp

  let ?cfg2 = "testConfig [''group/repo-a'', ''group/repo-b'']"
  let ?init = "\<lparr>Total = 2, Created = 0, SkippedExists = 0, SkippedDraft = 0,
                SkippedBranch = 0, SkippedNoChange = 0, Errors = 0\<rparr>"
  have step: "processProject noUnicode ?c1 ?cfg2 ''group/repo-a'' ((), [])
                = (Inr (errorResult ''group/repo-a'' ''timeout''),
                   ((), [GetProjectCall ''group/repo-a'']))"
    by (simp add: processProject_def client_defs errorResult_def eval)
  have error: "Status (errorResult ''group/repo-a'' ''timeout'') = StatusError"
    by (simp add: errorResult_def)
  from processProject_failure_is_error_result
         [OF refl refl, where c = ?c1 and U = noUnicode and cfg = ?cfg2
            and projectPath = "''group/repo-a''" and s = "((), [])"
            and r = "errorResult ''group/repo-a'' ''timeout''"
            and ?s1.0 = "((), [GetProjectCall ''group/repo-a''])"
            and rest = "[''group/repo-b'']" and results = "[]" and summary = ?init]
       step error
  have "processLoop noUnicode ?c1 ?cfg2 [''group/repo-a'', ''group/repo-b''] ([], ?init) ((), [])
          = processLoop noUnicode ?c1 ?cfg2 [''group/repo-b'']
              ([errorResult ''group/repo-a'' ''timeout''], ?init\<lparr>Errors := 1\<rparr>)
              ((), [GetProjectCall ''group/repo-a''])"
    by simp
  then show "fst (ProcessProjects noUnicode ?c1 ?cfg2 ((), []))
     = Inr ([errorResult ''group/repo-a'' ''timeout'',
             \<lparr>Project = ''group/repo-b'', Status = ''SKIPPED_EXISTS'', MergeRequestID = 100,
               MergeRequestIID = 10, MergeRequestURL = [], ErrorMessage = [],
               Details = ''Open MR already exists: !10''\<rparr>],
            \<lparr>Total = 2, Created = 0, SkippedExists = 1, SkippedDraft = 0, SkippedBranch = 0,
              SkippedNoChange = 0, Errors = 1\<rparr>)"
    by (simp add: ProcessProjects_def processProject_def client_defs eval IsDraft_def mkMR_def
          string_eval countStatus_def status_defs itoa_def decimal.simps errorResult_def)

  let ?cfg4 = "testConfig [''group/repo-a'', ''group/repo-b'', ''group/repo-a'',
                           ''group/repo-c'']"
  have contract:
    "(\<forall>path \<in> set (Projects ?cfg4). \<forall>w. fst (GetProject ?c1 path w) \<noteq> (None, None))
     \<and> (\<forall>projectID sourceBranch targetBranch w.
           fst (CompareBranches ?c1 projectID sourceBranch targetBranch w) \<noteq> (None, None))
     \<and> (\<forall>projectID sourceBranch targetBranch t d w.
           fst (CreateMergeRequest ?c1 projectID sourceBranch targetBranch t d w)
             \<noteq> (None, None))"
    by (simp add: eval)
  have statuses:
    "map Status (fst (projr (fst (ProcessProjects noUnicode ?c1 ?cfg4 ((), [])))))
       = [''ERROR'', ''SKIPPED_EXISTS'', ''ERROR'', ''SKIPPED_DRAFT'']"
    by (simp add: ProcessProjects_def processProject_def client_defs eval IsDraft_def mkMR_def
          string_eval countStatus_def status_defs itoa_def decimal.simps)
  note whole = processProject_failure_is_error_result
    [OF refl refl, where c = ?c1 and U = noUnicode and cfg = ?cfg4 and s = "((), [])",
     THEN conjunct2, THEN conjunct2, THEN conjunct2, THEN mp, OF contract]
  then obtain allResults total s' where
    run: "ProcessProjects noUnicode ?c1 ?cfg4 ((), []) = (Inr (allResults, total), s')"
    and paths: "map Project allResults = Projects ?cfg4"
    and order: "resolutions (snd s') = resolutions (snd (((), []) :: unit state)) @ Projects ?cfg4"
    and errors: "Errors total
                   = int (length (filter (\<lambda>r. Status r = StatusError) allResults))"
    by blast
  from statuses run
  have four: "map Status allResults = [''ERROR'', ''SKIPPED_EXISTS'', ''ERROR'', ''SKIPPED_DRAFT'']"
    by simp
  have "length (filter (\<lambda>r. Status r = StatusError) allResults)
          = length (filter (\<lambda>st. st = StatusError) (map Status allResults))"
    by (simp add: filter_map comp_def)
  with four errors have "Errors total = 2"
    by (simp add: status_defs)
  with run paths order four
  show "\<exists>allResults total s'.
        ProcessProjects noUnicode ?c1 ?cfg4 ((), []) = (Inr (allResults, total), s')
        \<and> map Project allResults
            = [''group/repo-a'', ''group/repo-b'', ''group/repo-a'', ''group/repo-c'']
        \<and> map Status allResults = [''ERROR'', ''SKIPPED_EXISTS'', ''ERROR'', ''SKIPPED_DRAFT'']
        \<and> resolutions (snd s')
            = [''group/repo-a'', ''group/repo-b'', ''group/repo-a'', ''group/repo-c'']
        \<and> Errors total = 2"
    by (intro exI [of _ allResults] exI [of _ total] exI [of _ s']) (simp add: testConfig_def)
qed

section \<open>One result for every path\<close>

text \<open>
  C8.  With a client that never returns a \<open>nil\<close> pointer together with a \<open>nil\<close> error (for
  the configured paths, every comparison and every creation), \<open>ProcessProjects\<close> returns a
  list of results with one result for every entry of the configured paths, in the order
  of the paths: the \<open>Project\<close> fields of the results are the list of paths itself, so a
  path that is listed twice has two results.  Every result is what a run of
  \<open>processProject\<close> on its path returned, and the paths were resolved one after the other
  in the order of the configuration, a repeated path again: nothing is kept from an
  earlier iteration.
\<close>

theorem ProcessProjects_one_result_per_path:
  assumes "\<forall>projectPath \<in> set (Projects cfg).
             \<forall>w. fst (GetProject c projectPath w) \<noteq> (None, None)"
    and "\<forall>projectID sourceBranch targetBranch w.
           fst (CompareBranches c projectID sourceBranch targetBranch w) \<noteq> (None, None)"
    and "\<forall>projectID sourceBranch targetBranch title description w.
           fst (CreateMergeRequest c projectID sourceBranch targetBranch title description w)
             \<noteq> (None, None)"
  shows "\<exists>results summary s'.
           ProcessProjects U c cfg s = (Inr (results, summary), s')
           \<and> length results = length (Projects cfg)
           \<and> map Project results = Projects cfg
           \<and> list_all2 (\<lambda>path r. \<exists>s1 s2. processProject U c cfg path s1 = (Inr r, s2))
                 (Projects cfg) results
           \<and> resolutions (snd s') = resolutions (snd s) @ Projects cfg"
proof -
  let ?init = "\<lparr>Total = int (length (Projects cfg)), Created = 0, SkippedExists = 0,
                SkippedDraft = 0, SkippedBranch = 0, SkippedNoChange = 0, Errors = 0\<rparr>"
  from processLoop_returns [OF assms, of U cfg "[]" ?init s]
  obtain results summary s' where
    run: "processLoop U c cfg (Projects cfg) ([], ?init) s = (Inr (results, summary), s')"
    by blast
  from processLoop_Inr [OF run] have
    each: "list_all2 (\<lambda>path r. \<exists>s1 s2. processProject U c cfg path s1 = (Inr r, s2))
             (Projects cfg) results"
    and order: "resolutions (snd s') = resolutions (snd s) @ Projects cfg"
    by auto
  from each have len: "length results = length (Projects cfg)"
    by (simp add: list_all2_lengthD)
  have "map Project results = Projects cfg"
  proof (rule nth_equalityI)
    show "length (map Project results) = length (Projects cfg)"
      using len by simp
  next
    fix i assume "i < length (map Project results)"
    with each len obtain s1 s2 where
      "processProject U c cfg (Projects cfg ! i) s1 = (Inr (results ! i), s2)"
      by (auto simp: list_all2_conv_all_nth)
    then have "Project (results ! i) = Projects cfg ! i"
      using processProject_status by blast
    with \<open>i < length (map Project results)\<close> show "map Project results ! i = Projects cfg ! i"
      by simp
  qed
  with run each order len show ?thesis
    by (simp add: ProcessProjects_def)
qed

text \<open>
  The theorem at a run of the test double over five paths, \<open>group/repo-a\<close> twice.
\<close>

theorem ProcessProjects_one_result_per_path_witness:
  "\<exists>results summary s'.
     ProcessProjects noUnicode (mockClient testMock)
       (testConfig [''group/repo-a'', ''group/repo-b'', ''group/repo-c'', ''group/repo-d'',
                    ''group/repo-a'']) ((), [])
       = (Inr (results, summary), s')
     \<and> length results = 5
     \<and> map Project results
         = [''group/repo-a'', ''group/repo-b'', ''group/repo-c'', ''group/repo-d'',
            ''group/repo-a'']
     \<and> resolutions (snd s')
         = [''group/repo-a'', ''group/repo-b'', ''group/repo-c'', ''group/repo-d'',
            ''group/repo-a'']"
proof -
  let ?c = "mockClient testMock"
  let ?cfg = "testConfig [''group/repo-a'', ''group/repo-b'', ''group/repo-c'',
                          ''group/repo-d'', ''group/repo-a'']"
  have gp: "\<forall>projectPath \<in> set (Projects ?cfg).
              \<forall>w. fst (GetProject ?c projectPath w) \<noteq> (None, None)"
    by (simp add: mock_eval)
  have cb: "\<forall>projectID sourceBranch targetBranch w.
              fst (CompareBranches ?c projectID sourceBranch targetBranch w) \<noteq> (None, None)"
    by (simp add: mock_eval)
  have cm: "\<forall>projectID sourceBranch targetBranch title description w.
              fst (CreateMergeRequest ?c projectID sourceBranch targetBranch title description w)
                \<noteq> (None, None)"
    by (simp add: mock_eval)
  from ProcessProjects_one_result_per_path [OF gp cb cm, of noUnicode "((), [])"]
  obtain results summary s' where
    "ProcessProjects noUnicode ?c ?cfg ((), []) = (Inr (results, summary), s')"
    "length results = length (Projects ?cfg)"
    "map Project results = Projects ?cfg"
    "resolutions (snd s') = resolutions (snd (((), []) :: unit state)) @ Projects ?cfg"
    by blast
  then show ?thesis
    by (intro exI [of _ results] exI [of _ summary] exI [of _ s']) (simp add: testConfig_def)
qed

section \<open>Creation\<close>

text \<open>
  C9.  When both branches exist, no merge request is open for the pair and the comparison
  has commits, \<open>CreateMergeRequest\<close> is invoked with the title
  \<open>Merge <origin> into <target>\<close> and a description that names gitlab-tools as the
  automatic creator and repeats both branch names.  If the creation succeeds the result is
  \<open>CREATED\<close> with the ID, IID and URL of the new request and the detail
  \<open>MR !<IID>: <URL>\<close>; if it fails the result is \<open>ERROR\<close> with the message
  \<open>failed to create merge request: \<close> followed by the failure.
\<close>

theorem processProject_creates:
  assumes gp: "GetProject c projectPath w0 = ((Some project, None), w1)"
    and bo: "BranchExists c (Project.ID project) (OriginBranch cfg) w1 = ((True, None), w2)"
    and bt: "BranchExists c (Project.ID project) (Config.TargetBranch cfg) w2
               = ((True, None), w3)"
    and fo: "FindOpenMergeRequests c (Project.ID project) (OriginBranch cfg)
               (Config.TargetBranch cfg) w3 = (([], None), w4)"
    and cb: "CompareBranches c (Project.ID project) (OriginBranch cfg)
               (Config.TargetBranch cfg) w4 = ((Some compare, None), w5)"
    and hc: "Commits compare \<noteq> []"
    and title: "title = ''Merge '' @ OriginBranch cfg @ '' into '' @ Config.TargetBranch cfg"
    and description: "description =
           ''This merge request was created automatically by gitlab-tools.''
           @ [CHR 0x0A, CHR 0x0A] @ ''**Source Branch**: '' @ [CHR 0x60] @ OriginBranch cfg
           @ [CHR 0x60, CHR 0x0A] @ ''**Target Branch**: '' @ [CHR 0x60]
           @ Config.TargetBranch cfg @ [CHR 0x60]"
  shows "snd (snd (processProject U c cfg projectPath (w0, log))) =
           log @ [GetProjectCall projectPath,
                  BranchExistsCall (Project.ID project) (OriginBranch cfg),
                  BranchExistsCall (Project.ID project) (Config.TargetBranch cfg),
                  FindOpenMergeRequestsCall (Project.ID project) (OriginBranch cfg)
                    (Config.TargetBranch cfg),
                  CompareBranchesCall (Project.ID project) (OriginBranch cfg)
                    (Config.TargetBranch cfg),
                  CreateMergeRequestCall (Project.ID project) (OriginBranch cfg)
                    (Config.TargetBranch cfg) title description]
       \<and> (CreateMergeRequest c (Project.ID project) (OriginBranch cfg)
             (Config.TargetBranch cfg) title description w5 = ((Some mr, None), w6) \<longrightarrow>
            fst (processProject U c cfg projectPath (w0, log)) =
              Inr \<lparr>Project = projectPath, Status = StatusCreated,
                   MergeRequestID = MergeRequest.ID mr, MergeRequestIID = IID mr,
                   MergeRequestURL = MergeRequest.WebURL mr, ErrorMessage = [],
                   Details = ''MR !'' @ itoa (IID mr) @ '': '' @ MergeRequest.WebURL mr\<rparr>)
       \<and> (CreateMergeRequest c (Project.ID project) (OriginBranch cfg)
             (Config.TargetBranch cfg) title description w5 = ((m, Some e), w6) \<longrightarrow>
            fst (processProject U c cfg projectPath (w0, log)) =
              Inr \<lparr>Project = projectPath, Status = StatusError, MergeRequestID = 0,
                   MergeRequestIID = 0, MergeRequestURL = [],
                   ErrorMessage = ''failed to create merge request: '' @ e,
                   Details = []\<rparr>)"
  using gp bo bt fo cb hc unfolding title description
  by (simp add: processProject_def client_defs HasChanges_def Let_def
           split: prod.splits option.splits)

text \<open>
  The theorem at \<open>group/repo-a\<close>: the creation of the test double succeeds, and fails once
  its \<open>createError\<close> is set.
\<close>

theorem processProject_creates_witness:
  "processProject noUnicode (mockClient testMock) (testConfig []) ''group/repo-a'' ((), [])
     = (Inr \<lparr>Project = ''group/repo-a'', Status = ''CREATED'', MergeRequestID = 999,
             MergeRequestIID = 99,
             MergeRequestURL = ''https://gitlab.example.com/merge_requests/99'',
             ErrorMessage = [],
             Details = ''MR !99: https://gitlab.example.com/merge_requests/99''\<rparr>,
        ((), [GetProjectCall ''group/repo-a'', BranchExistsCall 1 ''op-stage'',
              BranchExistsCall 1 ''op-rc'', FindOpenMergeRequestsCall 1 ''op-stage'' ''op-rc'',
              CompareBranchesCall 1 ''op-stage'' ''op-rc'',
              CreateMergeRequestCall 1 ''op-stage'' ''op-rc'' ''Merge op-stage into op-rc''
                (''This merge request was created automatically by gitlab-tools.''
                 @ [CHR 0x0A, CHR 0x0A] @ ''**Source Branch**: '' @ [CHR 0x60] @ ''op-stage''
                 @ [CHR 0x60, CHR 0x0A] @ ''**Target Branch**: '' @ [CHR 0x60] @ ''op-rc''
                 @ [CHR 0x60])]))
   \<and> fst (processProject noUnicode (mockClient (testMock\<lparr>createError := Some ''403 Forbidden''\<rparr>))
            (testConfig []) ''group/repo-a'' ((), []))
     = Inr \<lparr>Project = ''group/repo-a'', Status = ''ERROR'', MergeRequestID = 0,
            MergeRequestIID = 0, MergeRequestURL = [],
            ErrorMessage = ''failed to create merge request: 403 Forbidden'',
            Details = []\<rparr>"
proof
  let ?c = "mockClient testMock" and ?cfg = "testConfig []"
  let ?p = "mockProject ''group/repo-a'' 1"
  let ?cmp = "\<lparr>Commit = \<lparr>Commit.ID = [], ShortID = [], Title = []\<rparr>,
               Commits = [\<lparr>Commit.ID = ''abc123'', ShortID = ''abc123'',
                           Title = ''Test commit''\<rparr>],
               Diffs = []\<rparr>"
  let ?title = "''Merge '' @ OriginBranch ?cfg @ '' into '' @ Config.TargetBranch ?cfg"
  let ?description = "''This merge request was created automatically by gitlab-tools.''
           @ [CHR 0x0A, CHR 0x0A] @ ''**Source Branch**: '' @ [CHR 0x60] @ OriginBranch ?cfg
           @ [CHR 0x60, CHR 0x0A] @ ''**Target Branch**: '' @ [CHR 0x60]
           @ Config.TargetBranch ?cfg @ [CHR 0x60]"
  let ?mr = "\<lparr>MergeRequest.ID = 999, IID = 99, Title = ?title,
               WebURL = ''https://gitlab.example.com/merge_requests/99'',
               State = ''opened'', Draft = False, SourceBranch = [], TargetBranch = [],
               ProjectID = 0\<rparr>"
  have gp: "GetProject ?c ''group/repo-a'' () = ((Some ?p, None), ())"
    by (simp add: mock_eval)
  have bo: "BranchExists ?c (Project.ID ?p) (OriginBranch ?cfg) () = ((True, None), ())"
    by (simp add: mock_eval mockProject_def)
  have bt: "BranchExists ?c (Project.ID ?p) (Config.TargetBranch ?cfg) () = ((True, None), ())"
    by (simp add: mock_eval mockProject_def)
  have fo: "FindOpenMergeRequests ?c (Project.ID ?p) (OriginBranch ?cfg)
              (Config.TargetBranch ?cfg) () = (([], None), ())"
    by (simp add: mock_eval mockProject_def)
  have cb: "CompareBranches ?c (Project.ID ?p) (OriginBranch ?cfg)
              (Config.TargetBranch ?cfg) () = ((Some ?cmp, None), ())"
    by (simp add: mock_eval)
  have hc: "Commits ?cmp \<noteq> []"
    by simp
  have cm: "CreateMergeRequest ?c (Project.ID ?p) (OriginBranch ?cfg)
              (Config.TargetBranch ?cfg) ?title ?description () = ((Some ?mr, None), ())"
    by (simp add: mock_eval)
  note inst = processProject_creates [OF gp bo bt fo cb hc refl refl, of noUnicode "[]" ?mr "()"]
  from inst cm
  have "snd (processProject noUnicode ?c ?cfg ''group/repo-a'' ((), [])) =
          ((), [GetProjectCall ''group/repo-a'', BranchExistsCall 1 ''op-stage'',
              BranchExistsCall 1 ''op-rc'', FindOpenMergeRequestsCall 1 ''op-stage'' ''op-rc'',
              CompareBranchesCall 1 ''op-stage'' ''op-rc'',
              CreateMergeRequestCall 1 ''op-stage'' ''op-rc'' ''Merge op-stage into op-rc''
                (''This merge request was created automatically by gitlab-tools.''
                 @ [CHR 0x0A, CHR 0x0A] @ ''**Source Branch**: '' @ [CHR 0x60] @ ''op-stage''
                 @ [CHR 0x60, CHR 0x0A] @ ''**Target Branch**: '' @ [CHR 0x60] @ ''op-rc''
                 @ [CHR 0x60])])"
    by (simp add: prod_eq_iff mockProject_def testConfig_def)
  moreover from inst cm
  have "fst (processProject noUnicode ?c ?cfg ''group/repo-a'' ((), [])) =
          Inr \<lparr>Project = ''group/repo-a'', Status = ''CREATED'', MergeRequestID = 999,
             MergeRequestIID = 99,
             MergeRequestURL = ''https://gitlab.example.com/merge_requests/99'',
             ErrorMessage = [],
             Details = ''MR !99: https://gitlab.example.com/merge_requests/99''\<rparr>"
    by (simp add: status_defs itoa_def decimal.simps)
  ultimately
  show "processProject noUnicode ?c ?cfg ''group/repo-a'' ((), [])
     = (Inr \<lparr>Project = ''group/repo-a'', Status = ''CREATED'', MergeRequestID = 999,
             MergeRequestIID = 99,
             MergeRequestURL = ''https://gitlab.example.com/merge_requests/99'',
             ErrorMessage = [],
             Details = ''MR !99: https://gitlab.example.com/merge_requests/99''\<rparr>,
        ((), [GetProjectCall ''group/repo-a'', BranchExistsCall 1 ''op-stage'',
              BranchExistsCall 1 ''op-rc'', FindOpenMergeRequestsCall 1 ''op-stage'' ''op-rc'',
              CompareBranchesCall 1 ''op-stage'' ''op-rc'',
              CreateMergeRequestCall 1 ''op-stage'' ''op-rc'' ''Merge op-stage into op-rc''
                (''This merge request was created automatically by gitlab-tools.''
                 @ [CHR 0x0A, CHR 0x0A] @ ''**Source Branch**: '' @ [CHR 0x60] @ ''op-stage''
                 @ [CHR 0x60, CHR 0x0A] @ ''**Target Branch**: '' @ [CHR 0x60] @ ''op-rc''
                 @ [CHR 0x60])]))"
    by (simp add: prod_eq_iff)
next
  let ?m = "testMock\<lparr>createError := Some ''403 Forbidden''\<rparr>"
  let ?c = "mockClient ?m" and ?cfg = "testConfig []"
  let ?p = "mockProject ''group/repo-a'' 1"
  let ?cmp = "\<lparr>Commit = \<lparr>Commit.ID = [], ShortID = [], Title = []\<rparr>,
               Commits = [\<lparr>Commit.ID = ''abc123'', ShortID = ''abc123'',
                           Title = ''Test commit''\<rparr>],
               Diffs = []\<rparr>"
  let ?title = "''Merge '' @ OriginBranch ?cfg @ '' into '' @ Config.TargetBranch ?cfg"
  let ?description = "''This merge request was created automatically by gitlab-tools.''
           @ [CHR 0x0A, CHR 0x0A] @ ''**Source Branch**: '' @ [CHR 0x60] @ OriginBranch ?cfg
           @ [CHR 0x60, CHR 0x0A] @ ''**Target Branch**: '' @ [CHR 0x60]
           @ Config.TargetBranch ?cfg @ [CHR 0x60]"
  have gp: "GetProject ?c ''group/repo-a'' () = ((Some ?p, None), ())"
    by (simp add: mock_eval)
  have bo: "BranchExists ?c (Project.ID ?p) (OriginBranch ?cfg) () = ((True, None), ())"
    by (simp add: mock_eval mockProject_def)
  have bt: "BranchExists ?c (Project.ID ?p) (Config.TargetBranch ?cfg) () = ((True, None), ())"
    by (simp add: mock_eval mockProject_def)
  have fo: "FindOpenMergeRequests ?c (Project.ID ?p) (OriginBranch ?cfg)
              (Config.TargetBranch ?cfg) () = (([], None), ())"
    by (simp add: mock_eval mockProject_def)
  have cb: "CompareBranches ?c (Project.ID ?p) (OriginBranch ?cfg)
              (Config.TargetBranch ?cfg) () = ((Some ?cmp, None), ())"
    by (simp add: mock_eval)
  have hc: "Commits ?cmp \<noteq> []"
    by simp
  have cm: "CreateMergeRequest ?c (Project.ID ?p) (OriginBranch ?cfg)
              (Config.TargetBranch ?cfg) ?title ?description ()
              = ((None, Some ''403 Forbidden''), ())"
    by (simp add: mock_eval)
  from processProject_creates [OF gp bo bt fo cb hc refl refl,
        of noUnicode "[]" _ "()" None "''403 Forbidden''"] cm
  show "fst (processProject noUnicode ?c ?cfg ''group/repo-a'' ((), []))
     = Inr \<lparr>Project = ''group/repo-a'', Status = ''ERROR'', MergeRequestID = 0,
            MergeRequestIID = 0, MergeRequestURL = [],
            ErrorMessage = ''failed to create merge request: 403 Forbidden'',
            Details = []\<rparr>"
    by (simp add: status_defs)
qed

section \<open>A project that is \<open>nil\<close>\<close>

text \<open>
  C10.  \<open>processProject\<close> tests only the error of \<open>GetProject\<close>.  When a client returns a
  \<open>nil\<close> project together with a \<open>nil\<close> error, the next statement reads \<open>project.ID\<close>
  through the \<open>nil\<close> pointer: the run panics right after the resolution, with no result
  and no \<open>ERROR\<close> status.  The test double answers in this way for every path that was not
  added to it.
\<close>

theorem processProject_nil_project_panics:
  "(GetProject c projectPath w0 = ((None, None), w1) \<longrightarrow>
      processProject U c cfg projectPath (w0, log) =
        (Inl NilPointerDereference, (w1, log @ [GetProjectCall projectPath])))
   \<and> (projects m projectPath = None \<longrightarrow>
        GetProject (mockClient m) projectPath w = ((None, None), w)
        \<and> processProject U (mockClient m) cfg projectPath (w, log) =
            (Inl NilPointerDereference, (w, log @ [GetProjectCall projectPath])))"
  by (simp add: processProject_def client_defs mockClient_def pureClient_def
        mock_GetProject_def)

text \<open>The theorem at a path that the test double does not know.\<close>

theorem processProject_nil_project_panics_witness:
  "projects testMock ''group/unknown'' = None
   \<and> processProject noUnicode (mockClient testMock) (testConfig []) ''group/unknown'' ((), [])
       = (Inl NilPointerDereference, ((), [GetProjectCall ''group/unknown'']))"
proof -
  have unknown: "projects testMock ''group/unknown'' = None"
    by (simp add: mock_eval)
  have gp: "GetProject (mockClient testMock) ''group/unknown'' () = ((None, None), ())"
    by (simp add: mock_eval)
  from processProject_nil_project_panics
         [of "mockClient testMock" "''group/unknown''" "()" "()" noUnicode "testConfig []" "[]"
             testMock "()"]
       gp unknown
  show ?thesis
    by simp
qed

end
